theory Spec2Isabelle
  imports Main
begin

section \<open>Python values and exceptions\<close>

text \<open>
  The two modules of the repository are \<^verbatim>\<open>python-commons/file_io.py\<close> (a JSON
  reader and writer with an atomic write path and a fallback encoder) and
  \<^verbatim>\<open>python-practices/mongo.py\<close> (two lazily created, module-level database
  clients). Exceptions are values: a function that can raise returns \<open>exn + 'a\<close>, with
  \<open>Inl\<close> the exception. The type \<open>exn\<close> stands for instances of Python's
  \<^verbatim>\<open>Exception\<close>, which is what every \<^verbatim>\<open>except Exception\<close> of the source catches;
  interpreter signals outside that class (\<^verbatim>\<open>KeyboardInterrupt\<close>, \<^verbatim>\<open>SystemExit\<close>) are not
  modelled.
\<close>

datatype exn =
    FileNotFoundError
  | FileExistsError
  | IsADirectoryError
  | NotADirectoryError
  | OSError string
  | TypeError
  | ValueError string
  | ImportError
  | Raised string

text \<open>The subclasses of \<^verbatim>\<open>OSError\<close>: the I/O error kind.\<close>

fun is_OSError :: "exn \<Rightarrow> bool" where
  "is_OSError FileNotFoundError = True"
| "is_OSError FileExistsError = True"
| "is_OSError IsADirectoryError = True"
| "is_OSError NotADirectoryError = True"
| "is_OSError (OSError m) = True"
| "is_OSError e = False"

text \<open>
  What \<^verbatim>\<open>getattr(value, name, None)\<close> finds: nothing, an attribute that is not
  callable, or a method with the outcome of calling it without arguments.
\<close>

datatype 'a attr = Absent | NotCallable | Method "exn + 'a"

text \<open>
  The elements a set holds in the model: integers, strings and \<^verbatim>\<open>None\<close>. Integers
  compare with integers and strings with strings; every other comparison raises
  \<^verbatim>\<open>TypeError\<close>, as Python's \<^verbatim>\<open><\<close> does.
\<close>

datatype atom = AInt int | AStr string | ANone

text \<open>
  The values \<^verbatim>\<open>_json_default\<close> can receive. \<open>PPath s\<close> is a \<^verbatim>\<open>pathlib.Path\<close> whose
  string form is \<open>s\<close>; \<open>PSet\<close> and \<open>PFrozenset\<close> list their elements in
  iteration order; \<open>PObj\<close> is any other object, given by the four attributes the
  encoder probes and by the outcome of \<^verbatim>\<open>str(value)\<close>.
\<close>

datatype pyval =
    PNone
  | PBool bool
  | PInt int
  | PStr string
  | PList "pyval list"
  | PDict "(string \<times> pyval) list"
  | PPath string
  | PSet "atom list"
  | PFrozenset "atom list"
  | PObj (to_string: "pyval attr") (to_wkt: "pyval attr") (to_epsg: "pyval attr")
      (item: "pyval attr") (obj_str: "exn + string")

fun of_atom :: "atom \<Rightarrow> pyval" where
  "of_atom (AInt i) = PInt i"
| "of_atom (AStr s) = PStr s"
| "of_atom ANone = PNone"

section \<open>The environment of a call\<close>

text \<open>
  The operations of \<^verbatim>\<open>file_io.py\<close> that reach the operating system, one per call
  site. The environment may make each of them fail with an \<^verbatim>\<open>OSError\<close> (permissions,
  a full disk, a device error) where it would otherwise succeed.
\<close>

datatype step =
    MkdirParents | OpenTarget | OpenRead | ReadFile | MakeTemp | DumpWrite
  | NewlineWrite | Flush | Fsync | Close | Unlink | Replace

text \<open>
  Everything a call takes from outside the repository: the injected failures, the
  candidate names \<^verbatim>\<open>NamedTemporaryFile\<close> draws, the text codec of an encoding name,
  the \<^verbatim>\<open>json\<close> library (\<open>json_dump\<close> takes the \<^verbatim>\<open>default\<close> callable,
  \<^verbatim>\<open>ensure_ascii\<close>, \<^verbatim>\<open>indent\<close> and the data, and gives the text it wrote and the
  exception it raised, if any), and \<^verbatim>\<open>str\<close> of a container.
\<close>

record world =
  faults :: "step \<Rightarrow> string option"
  tmp_names :: "string list"
  encode :: "string \<Rightarrow> string \<Rightarrow> exn + string"
  decode :: "string \<Rightarrow> string \<Rightarrow> exn + string"
  json_dump :: "(pyval \<Rightarrow> exn + pyval) \<Rightarrow> bool \<Rightarrow> int option \<Rightarrow> pyval \<Rightarrow> string \<times> exn option"
  json_load :: "string \<Rightarrow> exn + pyval"
  container_str :: "pyval \<Rightarrow> exn + string"

section \<open>Built-in functions used by the fallback encoder\<close>

fun dec_nat :: "nat \<Rightarrow> string" where
  "dec_nat n =
     (if n < 10 then [''0123456789'' ! n]
      else dec_nat (n div 10) @ [''0123456789'' ! (n mod 10)])"

declare dec_nat.simps [simp del]

definition dec_int :: "int \<Rightarrow> string" where
  "dec_int i = (if i < 0 then CHR ''-'' # dec_nat (nat (- i)) else dec_nat (nat i))"

text \<open>\<^verbatim>\<open>str(value)\<close>, which is also what an f-string field formats.\<close>

fun py_str :: "world \<Rightarrow> pyval \<Rightarrow> exn + string" where
  "py_str w PNone = Inr ''None''"
| "py_str w (PBool b) = Inr (if b then ''True'' else ''False'')"
| "py_str w (PInt i) = Inr (dec_int i)"
| "py_str w (PStr s) = Inr s"
| "py_str w (PPath s) = Inr s"
| "py_str w (PObj ts tw te it st) = st"
| "py_str w v = container_str w v"

text \<open>Strings compare by code point, lexicographically.\<close>

fun str_lt :: "string \<Rightarrow> string \<Rightarrow> bool" where
  "str_lt [] [] = False"
| "str_lt [] (y # ys) = True"
| "str_lt (x # xs) [] = False"
| "str_lt (x # xs) (y # ys) =
     ((of_char x :: nat) < of_char y \<or> (x = y \<and> str_lt xs ys))"

fun atom_lt :: "atom \<Rightarrow> atom \<Rightarrow> exn + bool" where
  "atom_lt (AInt a) (AInt b) = Inr (a < b)"
| "atom_lt (AStr a) (AStr b) = Inr (str_lt a b)"
| "atom_lt a b = Inl TypeError"

text \<open>
  \<^verbatim>\<open>sorted(value)\<close>: a comparison sort that raises as soon as a comparison does. A
  list of at most one element is returned without any comparison.
\<close>

fun insort_py :: "atom \<Rightarrow> atom list \<Rightarrow> exn + atom list" where
  "insort_py x [] = Inr [x]"
| "insort_py x (y # ys) =
     (case atom_lt x y of
        Inl e \<Rightarrow> Inl e
      | Inr lt \<Rightarrow>
          if lt then Inr (x # y # ys)
          else (case insort_py x ys of Inl e \<Rightarrow> Inl e | Inr zs \<Rightarrow> Inr (y # zs)))"

fun sorted_py :: "atom list \<Rightarrow> exn + atom list" where
  "sorted_py [] = Inr []"
| "sorted_py (x # xs) =
     (case sorted_py xs of Inl e \<Rightarrow> Inl e | Inr ys \<Rightarrow> insort_py x ys)"

fun isinstance_Path :: "pyval \<Rightarrow> bool" where
  "isinstance_Path (PPath s) = True"
| "isinstance_Path v = False"

text \<open>
  \<^verbatim>\<open>isinstance(value, set)\<close>: \<^verbatim>\<open>frozenset\<close> is not a subclass of \<^verbatim>\<open>set\<close>.
\<close>

fun isinstance_set :: "pyval \<Rightarrow> bool" where
  "isinstance_set (PSet xs) = True"
| "isinstance_set v = False"

fun elements :: "pyval \<Rightarrow> atom list" where
  "elements (PSet xs) = xs"
| "elements (PFrozenset xs) = xs"
| "elements v = []"

text \<open>
  \<^verbatim>\<open>getattr(value, name, None)\<close>. The built-in values have none of the four probed
  attributes.
\<close>

fun getattr :: "pyval \<Rightarrow> string \<Rightarrow> pyval attr" where
  "getattr (PObj ts tw te it st) name =
     (if name = ''to_string'' then ts
      else if name = ''to_wkt'' then tw
      else if name = ''to_epsg'' then te
      else if name = ''item'' then it
      else Absent)"
| "getattr v name = Absent"

fun callable :: "pyval attr \<Rightarrow> bool" where
  "callable (Method r) = True"
| "callable a = False"

fun call :: "pyval attr \<Rightarrow> exn + pyval" where
  "call (Method r) = r"
| "call a = Inl TypeError"

section \<open>The fallback encoder \<^verbatim>\<open>_json_default\<close>\<close>

text \<open>
  \<^verbatim>\<open>if callable(m): try: return m() except Exception: pass\<close>: the result of the
  rule when it returns, \<open>None\<close> when control goes on to the next rule.
\<close>

definition try_call :: "pyval attr \<Rightarrow> pyval option" where
  "try_call m =
     (if callable m then (case call m of Inr r \<Rightarrow> Some r | Inl e \<Rightarrow> None)
      else None)"

text \<open>The \<^verbatim>\<open>to_epsg\<close> rule: the f-string is inside the \<^verbatim>\<open>try\<close>.\<close>

definition epsg_rule :: "world \<Rightarrow> pyval attr \<Rightarrow> pyval option" where
  "epsg_rule w m =
     (case try_call m of
        None \<Rightarrow> None
      | Some epsg \<Rightarrow>
          if epsg \<noteq> PNone then
            (case py_str w epsg of
               Inr s \<Rightarrow> Some (PStr (''EPSG:'' @ s))
             | Inl e \<Rightarrow> None)
          else None)"

definition return_str :: "world \<Rightarrow> pyval \<Rightarrow> exn + pyval" where
  "return_str w v = (case py_str w v of Inl e \<Rightarrow> Inl e | Inr s \<Rightarrow> Inr (PStr s))"

definition json_default :: "world \<Rightarrow> pyval \<Rightarrow> exn + pyval" where
  "json_default w v =
     (if isinstance_Path v then return_str w v
      else if isinstance_set v then
        (case sorted_py (elements v) of
           Inr xs \<Rightarrow> Inr (PList (map of_atom xs))
         | Inl e \<Rightarrow> Inr (PList (map of_atom (elements v))))
      else
        (case try_call (getattr v ''to_string'') of
           Some r \<Rightarrow> Inr r
         | None \<Rightarrow>
        (case try_call (getattr v ''to_wkt'') of
           Some r \<Rightarrow> Inr r
         | None \<Rightarrow>
        (case epsg_rule w (getattr v ''to_epsg'') of
           Some r \<Rightarrow> Inr r
         | None \<Rightarrow>
        (case try_call (getattr v ''item'') of
           Some r \<Rightarrow> Inr r
         | None \<Rightarrow> return_str w v)))))"

section \<open>Paths and the file system\<close>

text \<open>
  A path is the list of its components below the anchor (the root or the working
  directory), which is the empty list, always exists and is a directory. Components are
  plain names. \<^verbatim>\<open>path.parent\<close> drops the last component and is the anchor for the
  anchor; \<^verbatim>\<open>path.name\<close> is the last component, empty for the anchor.
\<close>

type_synonym path = "string list"

definition path_parent :: "path \<Rightarrow> path" where
  "path_parent p = butlast p"

definition path_name :: "path \<Rightarrow> string" where
  "path_name p = (if p = [] then [] else last p)"

datatype node = File string | Dir

type_synonym filesystem = "path \<Rightarrow> node option"

definition node_at :: "filesystem \<Rightarrow> path \<Rightarrow> node option" where
  "node_at fs p = (if p = [] then Some Dir else fs p)"

definition path_exists :: "filesystem \<Rightarrow> path \<Rightarrow> bool" where
  "path_exists fs p = (node_at fs p \<noteq> None)"

fun is_File :: "node option \<Rightarrow> bool" where
  "is_File (Some (File c)) = True"
| "is_File n = False"

text \<open>The proper ancestors of a directory below the anchor, outermost first.\<close>

definition ancestors :: "path \<Rightarrow> path list" where
  "ancestors d = map (\<lambda>n. take n d) [1..<length d]"

text \<open>
  \<^verbatim>\<open>Path.mkdir(parents=True, exist_ok=True)\<close>: every missing directory on the way to
  \<open>d\<close>, and \<open>d\<close> itself, is created; directories that exist are left alone; a
  regular file on the way, or at \<open>d\<close>, makes the call fail before anything is created.
\<close>

definition mkdir_parents :: "world \<Rightarrow> filesystem \<Rightarrow> path \<Rightarrow> filesystem \<times> (exn + unit)" where
  "mkdir_parents w fs d =
     (if list_ex (\<lambda>q. is_File (node_at fs q)) (ancestors d) then (fs, Inl NotADirectoryError)
      else if is_File (node_at fs d) then (fs, Inl FileExistsError)
      else
        (case faults w MkdirParents of
           Some m \<Rightarrow> (fs, Inl (OSError m))
         | None \<Rightarrow>
             ((\<lambda>q. if (q \<in> set (ancestors d) \<or> q = d) \<and> node_at fs q = None then Some Dir
                    else fs q),
              Inr ())))"

text \<open>
  An open text file: its path, its encoding and the text written to it so far. Writes
  are not buffered in the model: the file holds the encoded text after each write.
\<close>

record handle =
  h_path :: path
  h_encoding :: string
  h_text :: string

definition newline :: string where
  "newline = [CHR 0x0A]"

text \<open>\<^verbatim>\<open>path.open("w", encoding=encoding, newline="\n")\<close>: creates or truncates.\<close>

definition open_write :: "world \<Rightarrow> filesystem \<Rightarrow> path \<Rightarrow> string \<Rightarrow> filesystem \<times> (exn + handle)" where
  "open_write w fs p enc =
     (case node_at fs (path_parent p) of
        None \<Rightarrow> (fs, Inl FileNotFoundError)
      | Some (File c) \<Rightarrow> (fs, Inl NotADirectoryError)
      | Some Dir \<Rightarrow>
          (case node_at fs p of
             Some Dir \<Rightarrow> (fs, Inl IsADirectoryError)
           | _ \<Rightarrow>
               (case faults w OpenTarget of
                  Some m \<Rightarrow> (fs, Inl (OSError m))
                | None \<Rightarrow>
                    (fs(p \<mapsto> File []), Inr \<lparr>h_path = p, h_encoding = enc, h_text = []\<rparr>))))"

text \<open>\<^verbatim>\<open>f.write(s)\<close> at the call site \<open>st\<close>.\<close>

definition write_text :: "world \<Rightarrow> step \<Rightarrow> filesystem \<Rightarrow> handle \<Rightarrow> string \<Rightarrow> filesystem \<times> (exn + handle)" where
  "write_text w st fs h s =
     (case encode w (h_encoding h) (h_text h @ s) of
        Inl e \<Rightarrow> (fs, Inl e)
      | Inr bytes \<Rightarrow>
          (case faults w st of
             Some m \<Rightarrow> (fs, Inl (OSError m))
           | None \<Rightarrow> (fs(h_path h \<mapsto> File bytes), Inr (h\<lparr>h_text := h_text h @ s\<rparr>))))"

text \<open>
  \<^verbatim>\<open>json.dump(data, f, ensure_ascii=..., indent=..., default=...)\<close>: the text the
  serializer produced reaches the file, then the serializer's exception is raised, if any.
\<close>

definition dump :: "world \<Rightarrow> filesystem \<Rightarrow> handle \<Rightarrow> pyval \<Rightarrow> bool \<Rightarrow> int option \<Rightarrow>
    (pyval \<Rightarrow> exn + pyval) \<Rightarrow> filesystem \<times> (exn + handle)" where
  "dump w fs f data ensure_ascii indent dflt =
     (case json_dump w dflt ensure_ascii indent data of
        (s, err) \<Rightarrow>
          (case write_text w DumpWrite fs f s of
             (fs', Inl e) \<Rightarrow> (fs', Inl e)
           | (fs', Inr f') \<Rightarrow>
               (case err of Some e \<Rightarrow> (fs', Inl e) | None \<Rightarrow> (fs', Inr f'))))"

text \<open>\<^verbatim>\<open>json.dump(...)\<close> followed by \<^verbatim>\<open>f.write("\n")\<close>.\<close>

definition dump_line :: "world \<Rightarrow> filesystem \<Rightarrow> handle \<Rightarrow> pyval \<Rightarrow> bool \<Rightarrow> int option \<Rightarrow>
    (pyval \<Rightarrow> exn + pyval) \<Rightarrow> filesystem \<times> (exn + handle)" where
  "dump_line w fs f data ensure_ascii indent dflt =
     (case dump w fs f data ensure_ascii indent dflt of
        (fs', Inl e) \<Rightarrow> (fs', Inl e)
      | (fs', Inr f') \<Rightarrow> write_text w NewlineWrite fs' f' newline)"

text \<open>
  \<^verbatim>\<open>NamedTemporaryFile(mode="w", encoding=..., dir=..., delete=False, prefix=...,
  suffix=...)\<close>: the first candidate name that is free in \<open>dir\<close> is created, empty.
\<close>

fun first_free :: "filesystem \<Rightarrow> path \<Rightarrow> string \<Rightarrow> string \<Rightarrow> string list \<Rightarrow> path option" where
  "first_free fs dir pre suf [] = None"
| "first_free fs dir pre suf (c # cs) =
     (if node_at fs (dir @ [pre @ c @ suf]) = None then Some (dir @ [pre @ c @ suf])
      else first_free fs dir pre suf cs)"

definition named_temporary_file :: "world \<Rightarrow> filesystem \<Rightarrow> string \<Rightarrow> path \<Rightarrow> string \<Rightarrow> string \<Rightarrow>
    filesystem \<times> (exn + handle)" where
  "named_temporary_file w fs enc dir pre suf =
     (case node_at fs dir of
        None \<Rightarrow> (fs, Inl FileNotFoundError)
      | Some (File c) \<Rightarrow> (fs, Inl NotADirectoryError)
      | Some Dir \<Rightarrow>
          (case faults w MakeTemp of
             Some m \<Rightarrow> (fs, Inl (OSError m))
           | None \<Rightarrow>
               (case first_free fs dir pre suf (tmp_names w) of
                  None \<Rightarrow> (fs, Inl FileExistsError)
                | Some t \<Rightarrow>
                    (fs(t \<mapsto> File []), Inr \<lparr>h_path = t, h_encoding = enc, h_text = []\<rparr>))))"

text \<open>\<^verbatim>\<open>tmp_path.unlink(missing_ok=True)\<close>.\<close>

definition unlink :: "world \<Rightarrow> filesystem \<Rightarrow> path \<Rightarrow> filesystem \<times> (exn + unit)" where
  "unlink w fs p =
     (case node_at fs p of
        None \<Rightarrow> (fs, Inr ())
      | Some Dir \<Rightarrow> (fs, Inl IsADirectoryError)
      | Some (File c) \<Rightarrow>
          (case faults w Unlink of
             Some m \<Rightarrow> (fs, Inl (OSError m))
           | None \<Rightarrow> (fs(p := None), Inr ())))"

text \<open>
  \<^verbatim>\<open>os.replace(src, dst)\<close> for a regular file \<open>src\<close> (the source only ever renames
  the temporary file it wrote): \<open>dst\<close> is overwritten unless it is a directory.
\<close>

definition replace :: "world \<Rightarrow> filesystem \<Rightarrow> path \<Rightarrow> path \<Rightarrow> filesystem \<times> (exn + unit)" where
  "replace w fs src dst =
     (case node_at fs src of
        Some (File c) \<Rightarrow>
          (case node_at fs dst of
             Some Dir \<Rightarrow> (fs, Inl IsADirectoryError)
           | _ \<Rightarrow>
               (case node_at fs (path_parent dst) of
                  Some Dir \<Rightarrow>
                    (case faults w Replace of
                       Some m \<Rightarrow> (fs, Inl (OSError m))
                     | None \<Rightarrow> ((fs(src := None))(dst \<mapsto> File c), Inr ()))
                | _ \<Rightarrow> (fs, Inl FileNotFoundError)))
      | _ \<Rightarrow> (fs, Inl FileNotFoundError))"

section \<open>\<^verbatim>\<open>read_json\<close>\<close>

text \<open>\<^verbatim>\<open>json.load(f)\<close> on a file opened for reading: read all, decode, parse.\<close>

definition load :: "world \<Rightarrow> string \<Rightarrow> string \<Rightarrow> exn + pyval" where
  "load w enc content =
     (case faults w ReadFile of
        Some m \<Rightarrow> Inl (OSError m)
      | None \<Rightarrow>
          (case decode w enc content of
             Inl e \<Rightarrow> Inl e
           | Inr text \<Rightarrow> json_load w text))"

text \<open>
  The \<^verbatim>\<open>with\<close> statement closes the file on the way out, also when the body raised; a
  failing close is the exception that leaves the statement.
\<close>

definition read_json :: "world \<Rightarrow> filesystem \<Rightarrow> path \<Rightarrow> string \<Rightarrow> exn + pyval" where
  "read_json w fs file_path encoding =
     (if \<not> path_exists fs file_path then Inl FileNotFoundError
      else
        (case node_at fs file_path of
           None \<Rightarrow> Inl FileNotFoundError
         | Some Dir \<Rightarrow> Inl IsADirectoryError
         | Some (File content) \<Rightarrow>
             (case faults w OpenRead of
                Some m \<Rightarrow> Inl (OSError m)
              | None \<Rightarrow>
                  (case faults w Close of
                     Some m \<Rightarrow> Inl (OSError m)
                   | None \<Rightarrow> load w encoding content))))"

section \<open>\<^verbatim>\<open>write_json\<close>\<close>

text \<open>
  The \<^verbatim>\<open>default\<close> argument of a caller: a callable object, given by its value in a
  Boolean context and by what calling it does. Functions and lambdas are true there; an
  object with \<^verbatim>\<open>__call__\<close> whose \<^verbatim>\<open>__bool__\<close> or \<^verbatim>\<open>__len__\<close> makes it false is a
  callable too.
\<close>

datatype pycallable = Callable (truthy: bool) (func_of: "pyval \<Rightarrow> exn + pyval")

text \<open>
  \<^verbatim>\<open>default or _json_default\<close>: the fallback chain is taken when no callable is given
  and also when the callable given is false in a Boolean context.
\<close>

definition default_or :: "pycallable option \<Rightarrow> (pyval \<Rightarrow> exn + pyval) \<Rightarrow> (pyval \<Rightarrow> exn + pyval)" where
  "default_or dflt fallback =
     (case dflt of
        None \<Rightarrow> fallback
      | Some c \<Rightarrow> if truthy c then func_of c else fallback)"

text \<open>The body of the \<^verbatim>\<open>try\<close> statement: serialize, newline, flush, fsync.\<close>

definition atomic_try :: "world \<Rightarrow> filesystem \<Rightarrow> handle \<Rightarrow> pyval \<Rightarrow> bool \<Rightarrow> int option \<Rightarrow>
    (pyval \<Rightarrow> exn + pyval) \<Rightarrow> filesystem \<times> (exn + handle)" where
  "atomic_try w fs tmp data ensure_ascii indent dflt =
     (case dump_line w fs tmp data ensure_ascii indent dflt of
        (fs', Inl e) \<Rightarrow> (fs', Inl e)
      | (fs', Inr tmp') \<Rightarrow>
          (case faults w Flush of
             Some m \<Rightarrow> (fs', Inl (OSError m))
           | None \<Rightarrow>
               (case faults w Fsync of
                  Some m \<Rightarrow> (fs', Inl (OSError m))
                | None \<Rightarrow> (fs', Inr tmp'))))"

text \<open>
  The \<^verbatim>\<open>except Exception\<close> clause, entered with the exception \<open>e\<close>: close the
  temporary file; in the \<^verbatim>\<open>finally\<close>, delete it with every failure of the deletion
  suppressed; then \<^verbatim>\<open>raise\<close>. When the close itself raised, that exception leaves the
  clause and the bare \<^verbatim>\<open>raise\<close> is not reached. The result is the exception that
  leaves the clause.
\<close>

definition cleanup :: "world \<Rightarrow> filesystem \<Rightarrow> path \<Rightarrow> exn \<Rightarrow> filesystem \<times> exn" where
  "cleanup w fs tmp_path e =
     (case unlink w fs tmp_path of
        (fs', suppressed) \<Rightarrow>
          (fs', case faults w Close of Some m \<Rightarrow> OSError m | None \<Rightarrow> e))"

definition write_json :: "world \<Rightarrow> filesystem \<Rightarrow> path \<Rightarrow> pyval \<Rightarrow> string \<Rightarrow> int option \<Rightarrow> bool \<Rightarrow>
    bool \<Rightarrow> bool \<Rightarrow> pycallable option \<Rightarrow> filesystem \<times> (exn + unit)" where
  "write_json w fs file_path data encoding indent ensure_ascii create_parents atomic dflt =
     (case (if create_parents then mkdir_parents w fs (path_parent file_path)
            else (fs, Inr ())) of
        (fs0, Inl e) \<Rightarrow> (fs0, Inl e)
      | (fs0, Inr u) \<Rightarrow>
          if \<not> atomic then
            (case open_write w fs0 file_path encoding of
               (fs1, Inl e) \<Rightarrow> (fs1, Inl e)
             | (fs1, Inr f) \<Rightarrow>
                 (case dump_line w fs1 f data ensure_ascii indent
                         (default_or dflt (json_default w)) of
                    (fs2, r) \<Rightarrow>
                      (case faults w Close of
                         Some m \<Rightarrow> (fs2, Inl (OSError m))
                       | None \<Rightarrow>
                           (case r of Inl e \<Rightarrow> (fs2, Inl e) | Inr f' \<Rightarrow> (fs2, Inr ())))))
          else
            (case named_temporary_file w fs0 encoding (path_parent file_path)
                    (''.'' @ path_name file_path @ ''.'') ''.tmp'' of
               (fs1, Inl e) \<Rightarrow> (fs1, Inl e)
             | (fs1, Inr tmp) \<Rightarrow>
                 (case atomic_try w fs1 tmp data ensure_ascii indent
                         (default_or dflt (json_default w)) of
                    (fs2, Inl e) \<Rightarrow>
                      (case cleanup w fs2 (h_path tmp) e of (fs3, e') \<Rightarrow> (fs3, Inl e'))
                  | (fs2, Inr tmp') \<Rightarrow>
                      (case faults w Close of
                         Some m \<Rightarrow> (fs2, Inl (OSError m))
                       | None \<Rightarrow> replace w fs2 (h_path tmp) file_path))))"

section \<open>The database clients of \<^verbatim>\<open>mongo.py\<close>\<close>

text \<open>
  The keyword arguments \<^verbatim>\<open>_client_kwargs_for_uri\<close> builds.
\<close>

record kwargs =
  serverSelectionTimeoutMS :: int
  tlsCAFile :: "string option"

text \<open>
  What the module takes from outside the repository: the variables of the
  \<^verbatim>\<open>.env\<close> file (\<open>None\<close> when \<^verbatim>\<open>python-dotenv\<close> cannot be imported or loading
  fails), the CA bundle of \<^verbatim>\<open>certifi\<close> (\<open>None\<close> when it cannot be imported),
  \<^verbatim>\<open>int\<close> on a string, and the two drivers' client constructors (\<open>None\<close> when the
  driver cannot be imported). A client is a value of the driver's own type \<open>'c\<close>.
\<close>

record 'c driver =
  dotenv :: "(string \<rightharpoonup> string) option"
  certifi_where :: "string option"
  py_int :: "string \<Rightarrow> exn + int"
  motor_client :: "(string \<Rightarrow> kwargs \<Rightarrow> exn + 'c) option"
  mongo_client :: "(string \<Rightarrow> kwargs \<Rightarrow> exn + 'c) option"

text \<open>
  The state the module reads and writes: the two module-level singletons
  \<^verbatim>\<open>_async_client\<close> and \<^verbatim>\<open>_sync_client\<close>, the process environment, the clients
  whose \<^verbatim>\<open>close()\<close> has been called (most recent first) and the lines logged.
\<close>

record 'c state =
  async_client :: "'c option"
  sync_client :: "'c option"
  environ :: "string \<rightharpoonup> string"
  closed_clients :: "'c list"
  logged :: "string list"

definition getenv :: "'c state \<Rightarrow> string \<Rightarrow> string \<Rightarrow> string" where
  "getenv s k dflt = (case environ s k of None \<Rightarrow> dflt | Some v \<Rightarrow> v)"

text \<open>
  \<^verbatim>\<open>load_dotenv(override=False)\<close> adds the variables the environment does not have
  yet; a missing package is ignored.
\<close>

definition get_mongo_uri :: "'c driver \<Rightarrow> 'c state \<Rightarrow> string \<times> 'c state" where
  "get_mongo_uri d s =
     (case (case dotenv d of
              None \<Rightarrow> s
            | Some vars \<Rightarrow> s\<lparr>environ := vars ++ environ s\<rparr>) of
        s' \<Rightarrow> (getenv s' ''MONGO_URI'' ''mongodb://localhost:27017'', s'))"

definition startswith :: "string \<Rightarrow> string \<Rightarrow> bool" where
  "startswith s pre = (take (length pre) s = pre)"

definition client_kwargs_for_uri :: "'c driver \<Rightarrow> 'c state \<Rightarrow> string \<Rightarrow> (exn + kwargs) \<times> 'c state" where
  "client_kwargs_for_uri d s uri =
     (case py_int d (getenv s ''MONGO_SERVER_SELECTION_TIMEOUT_MS'' ''5000'') of
        Inl e \<Rightarrow> (Inl e, s)
      | Inr t \<Rightarrow>
          if startswith uri ''mongodb+srv://''
             \<or> getenv s ''MONGO_FORCE_TLS'' ''0'' \<in> {''1'', ''true'', ''True''}
          then
            (case certifi_where d of
               Some ca \<Rightarrow> (Inr \<lparr>serverSelectionTimeoutMS = t, tlsCAFile = Some ca\<rparr>, s)
             | None \<Rightarrow>
                 (Inr \<lparr>serverSelectionTimeoutMS = t, tlsCAFile = None\<rparr>,
                  s\<lparr>logged := logged s @
                     [''TLS CA bundle not provided (install 'certifi' to avoid SSL issues with Atlas).'']\<rparr>))
          else (Inr \<lparr>serverSelectionTimeoutMS = t, tlsCAFile = None\<rparr>, s))"

text \<open>
  \<^verbatim>\<open>uri or get_mongo_uri()\<close>: \<^verbatim>\<open>None\<close> and the empty string are false, and only then
  is the environment consulted.
\<close>

definition uri_or_env :: "'c driver \<Rightarrow> string option \<Rightarrow> 'c state \<Rightarrow> string \<times> 'c state" where
  "uri_or_env d uri s =
     (case uri of
        None \<Rightarrow> get_mongo_uri d s
      | Some u \<Rightarrow> if u = [] then get_mongo_uri d s else (u, s))"

definition new_client :: "(string \<Rightarrow> kwargs \<Rightarrow> exn + 'c) option \<Rightarrow> string \<Rightarrow> 'c driver \<Rightarrow> string option \<Rightarrow>
    'c state \<Rightarrow> (exn + 'c) \<times> 'c state" where
  "new_client ctor kind d uri s =
     (case ctor of
        None \<Rightarrow> (Inl ImportError, s)
      | Some client_class \<Rightarrow>
          (case uri_or_env d uri s of
             (mongo_uri, s1) \<Rightarrow>
               (case client_kwargs_for_uri d s1 mongo_uri of
                  (Inl e, s2) \<Rightarrow> (Inl e, s2)
                | (Inr kw, s2) \<Rightarrow>
                    (client_class mongo_uri kw,
                     s2\<lparr>logged := logged s2 @
                        [''Connecting ('' @ kind @ '') to MongoDB at '' @ mongo_uri]\<rparr>))))"

definition new_async_client :: "'c driver \<Rightarrow> string option \<Rightarrow> 'c state \<Rightarrow> (exn + 'c) \<times> 'c state" where
  "new_async_client d uri s = new_client (motor_client d) ''async'' d uri s"

definition new_sync_client :: "'c driver \<Rightarrow> string option \<Rightarrow> 'c state \<Rightarrow> (exn + 'c) \<times> 'c state" where
  "new_sync_client d uri s = new_client (mongo_client d) ''sync'' d uri s"

definition get_async_client :: "'c driver \<Rightarrow> string option \<Rightarrow> 'c state \<Rightarrow> (exn + 'c) \<times> 'c state" where
  "get_async_client d uri s =
     (case async_client s of
        None \<Rightarrow>
          (case new_async_client d uri s of
             (Inl e, s') \<Rightarrow> (Inl e, s')
           | (Inr c, s') \<Rightarrow> (Inr c, s'\<lparr>async_client := Some c\<rparr>))
      | Some c \<Rightarrow> (Inr c, s))"

definition get_sync_client :: "'c driver \<Rightarrow> string option \<Rightarrow> 'c state \<Rightarrow> (exn + 'c) \<times> 'c state" where
  "get_sync_client d uri s =
     (case sync_client s of
        None \<Rightarrow>
          (case new_sync_client d uri s of
             (Inl e, s') \<Rightarrow> (Inl e, s')
           | (Inr c, s') \<Rightarrow> (Inr c, s'\<lparr>sync_client := Some c\<rparr>))
      | Some c \<Rightarrow> (Inr c, s))"

text \<open>
  \<^verbatim>\<open>if _async_client:\<close> tests the client in a Boolean context; the drivers' client
  objects are true there, so the test is whether a client is cached. The driver's
  \<^verbatim>\<open>close()\<close> is recorded in \<open>closed_clients\<close>; it is taken to return normally (the
  module has no handler around it, and the drivers release their resources without
  raising).
\<close>

definition close_async_client :: "'c state \<Rightarrow> 'c state" where
  "close_async_client s =
     (case async_client s of
        None \<Rightarrow> s
      | Some c \<Rightarrow>
          s\<lparr>closed_clients := c # closed_clients s,
            async_client := None,
            logged := logged s @ [''Async MongoDB client closed.'']\<rparr>)"

definition close_sync_client :: "'c state \<Rightarrow> 'c state" where
  "close_sync_client s =
     (case sync_client s of
        None \<Rightarrow> s
      | Some c \<Rightarrow>
          s\<lparr>closed_clients := c # closed_clients s,
            sync_client := None,
            logged := logged s @ [''Sync MongoDB client closed.'']\<rparr>)"

section \<open>A concrete environment\<close>

text \<open>
  An environment in which the definitions run: no injected failure, two candidate
  temporary names, UTF-8 as the only known encoding (the identity on the ASCII text
  used here), and a serializer and parser for a fragment of JSON. The serializer writes
  \<^verbatim>\<open>None\<close>, the Booleans and the integers as the \<^verbatim>\<open>json\<close> library does. For a value
  the library cannot represent itself (a path, a set, a frozenset, any other object) it
  calls the \<^verbatim>\<open>default\<close> callable and writes the result. Strings and containers, and
  results of \<^verbatim>\<open>default\<close> outside the fragment, are refused; no statement below uses
  them.
\<close>

fun literal_text :: "pyval \<Rightarrow> string option" where
  "literal_text PNone = Some ''null''"
| "literal_text (PBool b) = Some (if b then ''true'' else ''false'')"
| "literal_text (PInt i) = Some (dec_int i)"
| "literal_text v = None"

fun needs_default :: "pyval \<Rightarrow> bool" where
  "needs_default (PPath s) = True"
| "needs_default (PSet xs) = True"
| "needs_default (PFrozenset xs) = True"
| "needs_default (PObj ts tw te it st) = True"
| "needs_default v = False"

definition literal_dump :: "(pyval \<Rightarrow> exn + pyval) \<Rightarrow> bool \<Rightarrow> int option \<Rightarrow> pyval \<Rightarrow> string \<times> exn option" where
  "literal_dump dflt ensure_ascii indent v =
     (case literal_text v of
        Some t \<Rightarrow> (t, None)
      | None \<Rightarrow>
          if needs_default v then
            (case dflt v of
               Inl e \<Rightarrow> ([], Some e)
             | Inr r \<Rightarrow>
                 (case literal_text r of
                    Some t \<Rightarrow> (t, None)
                  | None \<Rightarrow> ([], Some (Raised ''outside the fragment''))))
          else ([], Some (Raised ''outside the fragment'')))"

definition literal_load :: "string \<Rightarrow> exn + pyval" where
  "literal_load s =
     (if s = ''null'' @ newline then Inr PNone
      else if s = ''true'' @ newline then Inr (PBool True)
      else if s = ''false'' @ newline then Inr (PBool False)
      else Inl (ValueError ''JSONDecodeError''))"

definition utf8 :: "string \<Rightarrow> string \<Rightarrow> exn + string" where
  "utf8 enc s = (if enc = ''utf-8'' then Inr s else Inl (Raised ''LookupError''))"

definition example_world :: world where
  "example_world =
     \<lparr>faults = (\<lambda>st. None),
      tmp_names = [''k3x9'', ''q7wz''],
      encode = utf8,
      decode = utf8,
      json_dump = literal_dump,
      json_load = literal_load,
      container_str = (\<lambda>v. Inr ''container'')\<rparr>"

text \<open>A directory \<^verbatim>\<open>data\<close> with a file \<^verbatim>\<open>data/out.json\<close> in it.\<close>

definition example_fs :: filesystem where
  "example_fs = [[''data''] \<mapsto> Dir, [''data'', ''out.json''] \<mapsto> File ''old'']"

text \<open>
  The concrete environment with failures injected at the listed call sites.
\<close>

definition failing :: "(step \<times> string) list \<Rightarrow> world" where
  "failing fl = example_world\<lparr>faults := map_of fl\<rparr>"

text \<open>
  An object that is not JSON-serializable and has an \<^verbatim>\<open>item()\<close> method returning
  \<open>7\<close>, as a boxed numeric scalar has. Two callable objects for the \<^verbatim>\<open>default\<close>
  argument, both answering \<^verbatim>\<open>True\<close> for every value: one true in a Boolean context,
  as a function is, and one false there. A serializer that uses a fixed callable whatever
  callable it is handed.
\<close>

definition boxed_seven :: pyval where
  "boxed_seven = PObj Absent Absent Absent (Method (Inr (PInt 7))) (Inr ''boxed'')"

definition answer_true :: "pyval \<Rightarrow> exn + pyval" where
  "answer_true v = Inr (PBool True)"

definition true_callable :: pycallable where
  "true_callable = Callable True answer_true"

definition false_callable :: pycallable where
  "false_callable = Callable False answer_true"

definition wired_dump :: "(pyval \<Rightarrow> exn + pyval) \<Rightarrow> (pyval \<Rightarrow> exn + pyval) \<Rightarrow> bool \<Rightarrow> int option \<Rightarrow>
    pyval \<Rightarrow> string \<times> exn option" where
  "wired_dump d dflt = literal_dump d"

text \<open>Both drivers installed, no \<^verbatim>\<open>.env\<close> file; a client is named by its URI.\<close>

definition example_driver :: "string driver" where
  "example_driver =
     \<lparr>dotenv = None,
      certifi_where = None,
      py_int = (\<lambda>s. if s = ''5000'' then Inr 5000 else Inl (ValueError ''invalid literal'')),
      motor_client = Some (\<lambda>uri kw. Inr (''motor '' @ uri)),
      mongo_client = Some (\<lambda>uri kw. Inr (''pymongo '' @ uri))\<rparr>"

definition example_state :: "string state" where
  "example_state =
     \<lparr>async_client = None, sync_client = None, environ = Map.empty,
      closed_clients = [], logged = []\<rparr>"

section \<open>The fallback encoder: properties\<close>


lemma insort_py_ints:
  "sorted ys \<Longrightarrow> insort_py (AInt x) (map AInt ys) = Inr (map AInt (insort x ys))"
proof (induction ys)
  case Nil
  then show ?case by simp
next
  case (Cons y ys)
  show ?case
  proof (cases "x = y")
    case True
    with Cons.prems have "insort x ys = x # ys"
      by (simp add: insort_is_Cons)
    with True Cons show ?thesis by simp
  next
    case False
    with Cons show ?thesis by auto
  qed
qed

text \<open>On a set of integers the set rule's \<^verbatim>\<open>sorted\<close> is the ascending order.\<close>

lemma sorted_py_ints: "sorted_py (map AInt xs) = Inr (map AInt (sort xs))"
  by (induction xs) (simp_all add: insort_py_ints)

lemma json_default_int_set:
  "json_default w (PSet (map AInt xs)) = Inr (PList (map PInt (sort xs)))"
  by (simp add: json_default_def sorted_py_ints comp_def)



text \<open>
  Claim C8. \<^verbatim>\<open>isinstance(value, set)\<close> is false of a frozenset, so the set rule
  does not apply to it: the encoder returns \<^verbatim>\<open>str(value)\<close> (or raises what
  \<^verbatim>\<open>str\<close> raises) and never a list of the elements.
\<close>

theorem json_default_frozenset:
  "\<not> isinstance_set (PFrozenset xs)
   \<and> json_default w (PFrozenset xs) =
       (case container_str w (PFrozenset xs) of Inl e \<Rightarrow> Inl e | Inr s \<Rightarrow> Inr (PStr s))
   \<and> json_default w (PFrozenset xs) \<noteq> Inr (PList ys)"
  by (simp add: json_default_def return_str_def try_call_def epsg_rule_def split: sum.splits)

section \<open>\<^verbatim>\<open>read_json\<close>: properties\<close>

text \<open>
  Claim C5. On a path that does not exist \<^verbatim>\<open>read_json\<close> raises
  \<^verbatim>\<open>FileNotFoundError\<close>, whatever the environment. On a file that opens and reads, it
  decodes the whole content with the encoding it was given and returns what the parser
  returns for that text; what the decoder or the parser raises reaches the caller.
\<close>

theorem read_json_contract:
  "(node_at fs p = None \<longrightarrow> read_json w fs p enc = Inl FileNotFoundError)
   \<and> (node_at fs p = Some (File content) \<longrightarrow> faults w OpenRead = None \<longrightarrow>
        faults w ReadFile = None \<longrightarrow> faults w Close = None \<longrightarrow>
        read_json w fs p enc =
          (case decode w enc content of Inl e \<Rightarrow> Inl e | Inr text \<Rightarrow> json_load w text))"
  by (auto simp: read_json_def path_exists_def load_def)

theorem read_json_contract_witness:
  "node_at example_fs [''data'', ''nope.json''] = None
   \<and> read_json example_world example_fs [''data'', ''nope.json''] ''utf-8'' = Inl FileNotFoundError
   \<and> node_at example_fs [''data'', ''out.json''] = Some (File ''old'')
   \<and> read_json example_world example_fs [''data'', ''out.json''] ''utf-8''
       = Inl (ValueError ''JSONDecodeError'')
   \<and> read_json example_world (example_fs([''data'', ''out.json''] \<mapsto> File ''true\<newline>''))
         [''data'', ''out.json''] ''utf-8'' = Inr (PBool True)"
proof -
  have a: "node_at example_fs [''data'', ''nope.json''] = None"
    by (simp add: node_at_def example_fs_def)
  have b: "node_at example_fs [''data'', ''out.json''] = Some (File ''old'')"
    by (simp add: node_at_def example_fs_def)
  have c: "node_at (example_fs([''data'', ''out.json''] \<mapsto> File ''true\<newline>''))
      [''data'', ''out.json''] = Some (File ''true\<newline>'')"
    by (simp add: node_at_def)
  have f: "faults example_world OpenRead = None" "faults example_world ReadFile = None"
      "faults example_world Close = None"
    by (simp_all add: example_world_def)
  show ?thesis
    using a b c f
      read_json_contract [where fs = example_fs and p = "[''data'', ''nope.json'']"
        and w = example_world and enc = "''utf-8''"]
      read_json_contract [where fs = example_fs and p = "[''data'', ''out.json'']"
        and content = "''old''" and w = example_world and enc = "''utf-8''"]
      read_json_contract [where fs = "example_fs([''data'', ''out.json''] \<mapsto> File ''true\<newline>'')"
        and p = "[''data'', ''out.json'']" and content = "''true\<newline>''"
        and w = example_world and enc = "''utf-8''"]
    by (simp add: example_world_def utf8_def literal_load_def newline_def)
qed

section \<open>\<^verbatim>\<open>write_json\<close>: properties\<close>

text \<open>
  Writing through a handle changes the file system at the handle's path only, and a
  write that returns has stored the encoding of all the text written so far.
\<close>

lemma write_text_frame:
  "write_text w st fs h s = (fs', r) \<Longrightarrow> fs'(h_path h := None) = fs(h_path h := None)"
  by (auto simp: write_text_def split: sum.splits option.splits)

lemma write_text_Inr:
  "write_text w st fs h s = (fs', Inr h') \<Longrightarrow>
     faults w st = None \<and> h' = h\<lparr>h_text := h_text h @ s\<rparr>
     \<and> (\<exists>b. encode w (h_encoding h) (h_text h @ s) = Inr b \<and> fs' = fs(h_path h \<mapsto> File b))"
  by (auto simp: write_text_def split: sum.splits option.splits)

lemma dump_frame:
  "dump w fs h data ea ind d = (fs', r) \<Longrightarrow> fs'(h_path h := None) = fs(h_path h := None)"
  by (auto simp: dump_def split: prod.splits sum.splits option.splits dest: write_text_frame)

lemma dump_Inr:
  "dump w fs h data ea ind d = (fs', Inr h') \<Longrightarrow>
     \<exists>s b. json_dump w d ea ind data = (s, None) \<and> h' = h\<lparr>h_text := h_text h @ s\<rparr>
       \<and> encode w (h_encoding h) (h_text h @ s) = Inr b \<and> fs' = fs(h_path h \<mapsto> File b)"
  by (auto simp: dump_def split: prod.splits sum.splits option.splits dest!: write_text_Inr)

lemma dump_line_frame:
  assumes "dump_line w fs h data ea ind d = (fs', r)"
  shows "fs'(h_path h := None) = fs(h_path h := None)"
proof -
  obtain fs1 r1 where d: "dump w fs h data ea ind d = (fs1, r1)"
    by (cases "dump w fs h data ea ind d")
  then have f1: "fs1(h_path h := None) = fs(h_path h := None)"
    by (rule dump_frame)
  show ?thesis
  proof (cases r1)
    case (Inl e)
    with d assms f1 show ?thesis by (simp add: dump_line_def)
  next
    case (Inr h1)
    with d have hp: "h_path h1 = h_path h"
      by (auto dest: dump_Inr)
    from Inr d assms have "write_text w NewlineWrite fs1 h1 newline = (fs', r)"
      by (simp add: dump_line_def)
    then have "fs'(h_path h1 := None) = fs1(h_path h1 := None)"
      by (rule write_text_frame)
    with hp f1 show ?thesis by simp
  qed
qed

lemma dump_line_Inr:
  assumes "dump_line w fs h data ea ind d = (fs', Inr h')"
  shows "\<exists>s b. json_dump w d ea ind data = (s, None)
       \<and> encode w (h_encoding h) (h_text h @ s @ newline) = Inr b
       \<and> fs' = fs(h_path h \<mapsto> File b)"
proof -
  obtain fs1 r1 where d: "dump w fs h data ea ind d = (fs1, r1)"
    by (cases "dump w fs h data ea ind d")
  with assms obtain h1 where r1: "r1 = Inr h1"
    by (cases r1) (simp_all add: dump_line_def)
  with d obtain s b1 where s: "json_dump w d ea ind data = (s, None)"
      and h1: "h1 = h\<lparr>h_text := h_text h @ s\<rparr>" and fs1: "fs1 = fs(h_path h \<mapsto> File b1)"
    by (auto dest: dump_Inr)
  from d r1 assms have "write_text w NewlineWrite fs1 h1 newline = (fs', Inr h')"
    by (simp add: dump_line_def)
  then obtain b where "encode w (h_encoding h1) (h_text h1 @ newline) = Inr b"
      and "fs' = fs1(h_path h1 \<mapsto> File b)"
    by (auto dest: write_text_Inr)
  with h1 fs1 s show ?thesis by simp
qed

lemma atomic_try_frame:
  assumes "atomic_try w fs tmp data ea ind d = (fs', r)"
  shows "fs'(h_path tmp := None) = fs(h_path tmp := None)"
proof -
  obtain fs1 r1 where d: "dump_line w fs tmp data ea ind d = (fs1, r1)"
    by (cases "dump_line w fs tmp data ea ind d")
  then have f1: "fs1(h_path tmp := None) = fs(h_path tmp := None)"
    by (rule dump_line_frame)
  from d assms have "fs' = fs1"
    by (cases r1) (auto simp: atomic_try_def split: option.splits)
  with f1 show ?thesis by simp
qed

lemma atomic_try_Inr:
  assumes "atomic_try w fs tmp data ea ind d = (fs', Inr tmp')"
  shows "\<exists>s b. json_dump w d ea ind data = (s, None)
       \<and> encode w (h_encoding tmp) (h_text tmp @ s @ newline) = Inr b
       \<and> fs' = fs(h_path tmp \<mapsto> File b)"
proof -
  obtain fs1 r1 where d: "dump_line w fs tmp data ea ind d = (fs1, r1)"
    by (cases "dump_line w fs tmp data ea ind d")
  with assms have "dump_line w fs tmp data ea ind d = (fs', Inr tmp')"
    by (cases r1) (auto simp: atomic_try_def split: option.splits)
  then show ?thesis by (rule dump_line_Inr)
qed

lemma first_free_Some:
  "first_free fs dir pre suf cs = Some t \<Longrightarrow>
     (\<exists>c. t = dir @ [pre @ c @ suf]) \<and> node_at fs t = None"
  by (induction cs) (auto split: if_splits)

lemma named_temporary_file_Inr:
  "named_temporary_file w fs enc dir pre suf = (fs1, Inr tmp) \<Longrightarrow>
     (\<exists>c. h_path tmp = dir @ [pre @ c @ suf]) \<and> fs (h_path tmp) = None
     \<and> fs1 = fs(h_path tmp \<mapsto> File []) \<and> h_encoding tmp = enc \<and> h_text tmp = []
     \<and> node_at fs dir = Some Dir"
  by (auto simp: named_temporary_file_def node_at_def
      split: option.splits node.splits if_splits dest!: first_free_Some)

lemma named_temporary_file_Inl:
  "named_temporary_file w fs enc dir pre suf = (fs1, Inl e) \<Longrightarrow> fs1 = fs"
  by (auto simp: named_temporary_file_def split: option.splits node.splits)

lemma temp_path_not_target:
  "path_parent p @ [''.'' @ path_name p @ ''.'' @ c @ ''.tmp''] \<noteq> p"
proof (cases "p = []")
  case True
  then show ?thesis by simp
next
  case False
  then have "p = butlast p @ [last p]" by simp
  moreover have "''.'' @ last p @ ''.'' @ c @ ''.tmp'' \<noteq> last p"
  proof
    assume "''.'' @ last p @ ''.'' @ c @ ''.tmp'' = last p"
    then have "length (''.'' @ last p @ ''.'' @ c @ ''.tmp'') = length (last p)" by simp
    then show False by simp
  qed
  ultimately show ?thesis
    using False by (metis append1_eq_conv path_name_def path_parent_def)
qed

lemma mkdir_parents_Inl: "mkdir_parents w fs d = (fs0, Inl e) \<Longrightarrow> fs0 = fs"
  by (auto simp: mkdir_parents_def split: if_splits option.splits)

lemma mkdir_parents_keeps:
  "mkdir_parents w fs d = (fs0, r) \<Longrightarrow> node_at fs q \<noteq> None \<Longrightarrow> node_at fs0 q = node_at fs q"
  by (auto simp: mkdir_parents_def node_at_def split: if_splits option.splits)

lemma mkdir_parents_outside:
  "mkdir_parents w fs d = (fs0, r) \<Longrightarrow> q \<notin> set (ancestors d) \<Longrightarrow> q \<noteq> d \<Longrightarrow> fs0 q = fs q"
  by (auto simp: mkdir_parents_def split: if_splits option.splits)

text \<open>Creating the parents is idempotent: a second call changes nothing and does not fail.\<close>

lemma mkdir_parents_idempotent:
  assumes "mkdir_parents w fs d = (fs0, Inr ())"
  shows "mkdir_parents w fs0 d = (fs0, Inr ())"
proof -
  from assms have nofile: "\<not> list_ex (\<lambda>q. is_File (node_at fs q)) (ancestors d)"
      and nod: "\<not> is_File (node_at fs d)" and quiet: "faults w MkdirParents = None"
      and fs0: "fs0 = (\<lambda>q. if (q \<in> set (ancestors d) \<or> q = d) \<and> node_at fs q = None then Some Dir
          else fs q)"
    by (auto simp: mkdir_parents_def split: if_splits option.splits)
  have same: "is_File (node_at fs0 q) = is_File (node_at fs q)" for q
    by (cases "node_at fs q") (auto simp: fs0 node_at_def split: if_splits)
  have there: "(q \<in> set (ancestors d) \<or> q = d) \<Longrightarrow> node_at fs0 q \<noteq> None" for q
    by (cases "node_at fs q") (auto simp: fs0 node_at_def split: if_splits)
  have "(\<lambda>q. if (q \<in> set (ancestors d) \<or> q = d) \<and> node_at fs0 q = None then Some Dir else fs0 q) = fs0"
  proof
    fix q
    show "(if (q \<in> set (ancestors d) \<or> q = d) \<and> node_at fs0 q = None then Some Dir else fs0 q) = fs0 q"
      using there [of q] by auto
  qed
  with nofile nod quiet same show ?thesis
    by (simp add: mkdir_parents_def list_ex_iff)
qed

lemma ancestors_length: "q \<in> set (ancestors d) \<Longrightarrow> length q < length d"
  by (auto simp: ancestors_def)

lemma not_own_ancestor:
  assumes "p \<noteq> []"
  shows "p \<notin> set (ancestors (path_parent p)) \<and> p \<noteq> path_parent p"
proof -
  from assms have len: "length (path_parent p) < length p"
    by (simp add: path_parent_def)
  have "p \<notin> set (ancestors (path_parent p))"
  proof
    assume "p \<in> set (ancestors (path_parent p))"
    then have "length p < length (path_parent p)" by (rule ancestors_length)
    with len show False by simp
  qed
  moreover from len have "p \<noteq> path_parent p" by auto
  ultimately show ?thesis by simp
qed

lemma prepare_target:
  assumes "(if cp then mkdir_parents w fs (path_parent p) else (fs, Inr ())) = (fs0, r)"
  shows "node_at fs0 p = node_at fs p"
proof (cases "p = []")
  case True
  then show ?thesis by (simp add: node_at_def)
next
  case False
  show ?thesis
  proof (cases cp)
    case True
    with assms have "mkdir_parents w fs (path_parent p) = (fs0, r)" by simp
    with not_own_ancestor [OF False] have "fs0 p = fs p"
      by (auto dest: mkdir_parents_outside)
    with False show ?thesis by (simp add: node_at_def)
  next
    case False
    with assms show ?thesis by simp
  qed
qed


lemma cleanup_result:
  assumes "node_at fs2 t = Some (File b)"
  shows "cleanup w fs2 t e =
     (if faults w Unlink = None then fs2(t := None) else fs2,
      case faults w Close of Some m \<Rightarrow> OSError m | None \<Rightarrow> e)"
  using assms by (auto simp: cleanup_def unlink_def split: option.splits)

lemma atomic_failure_state:
  assumes prep: "(if create_parents then mkdir_parents w fs (path_parent p) else (fs, Inr ()))
      = (fs0, Inr ())"
    and temp: "named_temporary_file w fs0 enc (path_parent p) (''.'' @ path_name p @ ''.'') ''.tmp''
      = (fs1, Inr tmp)"
    and fail: "atomic_try w fs1 tmp data ea ind (default_or dflt (json_default w)) = (fs2, Inl e)"
  shows "write_json w fs p data enc ind ea create_parents True dflt =
     (if faults w Unlink = None then fs0 else fs2,
      Inl (case faults w Close of Some m \<Rightarrow> OSError m | None \<Rightarrow> e))"
    and "fs2 p = fs0 p" and "h_path tmp \<noteq> []" and "h_path tmp \<noteq> p"
    and "fs2(h_path tmp := None) = fs0" and "\<exists>b. fs2 (h_path tmp) = Some (File b)"
proof -
  from temp obtain c where t: "h_path tmp = path_parent p @ [''.'' @ path_name p @ ''.'' @ c @ ''.tmp'']"
      and free: "fs0 (h_path tmp) = None" and fs1: "fs1 = fs0(h_path tmp \<mapsto> File [])"
    by (auto dest!: named_temporary_file_Inr)
  from t show ne: "h_path tmp \<noteq> []" by simp
  from t temp_path_not_target [of p c] show np: "h_path tmp \<noteq> p" by simp
  from fail have "fs2(h_path tmp := None) = fs1(h_path tmp := None)"
    by (rule atomic_try_frame)
  with fs1 free show restored: "fs2(h_path tmp := None) = fs0"
    by (simp add: fun_upd_idem)
  from restored np show "fs2 p = fs0 p"
    by (metis fun_upd_other)
  have "\<exists>b. fs2 (h_path tmp) = Some (File b)"
  proof -
    obtain fsd rd where d: "dump_line w fs1 tmp data ea ind (default_or dflt (json_default w)) = (fsd, rd)"
      by (cases "dump_line w fs1 tmp data ea ind (default_or dflt (json_default w))")
    with fail have same: "fsd = fs2"
      by (cases rd) (auto simp: atomic_try_def split: option.splits)
    obtain fsx rx where x: "dump w fs1 tmp data ea ind (default_or dflt (json_default w)) = (fsx, rx)"
      by (cases "dump w fs1 tmp data ea ind (default_or dflt (json_default w))")
    have fx: "\<exists>b. fsx (h_path tmp) = Some (File b)"
      using x fs1
      by (auto simp: dump_def write_text_def split: prod.splits sum.splits option.splits)
    show ?thesis
    proof (cases rx)
      case (Inl e')
      with x d same fx show ?thesis by (simp add: dump_line_def)
    next
      case (Inr h1)
      with x have "h_path h1 = h_path tmp" by (auto dest: dump_Inr)
      with Inr x d same fx show ?thesis
        by (auto simp: dump_line_def write_text_def split: sum.splits option.splits)
    qed
  qed
  then show ex: "\<exists>b. fs2 (h_path tmp) = Some (File b)" .
  then obtain b where "node_at fs2 (h_path tmp) = Some (File b)"
    using ne by (auto simp: node_at_def)
  then have "cleanup w fs2 (h_path tmp) e =
     (if faults w Unlink = None then fs2(h_path tmp := None) else fs2,
      case faults w Close of Some m \<Rightarrow> OSError m | None \<Rightarrow> e)"
    by (rule cleanup_result)
  with prep temp fail restored
  show "write_json w fs p data enc ind ea create_parents True dflt =
     (if faults w Unlink = None then fs0 else fs2,
      Inl (case faults w Close of Some m \<Rightarrow> OSError m | None \<Rightarrow> e))"
    by (simp add: write_json_def)
qed

text \<open>What a write that returned normally has done.\<close>

lemma replace_Inr:
  "replace w fs src dst = (fs', Inr u) \<Longrightarrow>
     \<exists>c. node_at fs src = Some (File c) \<and> fs' = (fs(src := None))(dst \<mapsto> File c) \<and> dst \<noteq> []"
  by (auto simp: replace_def node_at_def split: option.splits node.splits if_splits)

lemma open_write_Inr:
  "open_write w fs p enc = (fs1, Inr f) \<Longrightarrow>
     p \<noteq> [] \<and> fs1 = fs(p \<mapsto> File []) \<and> f = \<lparr>h_path = p, h_encoding = enc, h_text = []\<rparr>"
  by (auto simp: open_write_def node_at_def split: option.splits node.splits if_splits)

lemma write_json_direct_Inr:
  assumes "write_json w fs p data enc ind ea cp False dflt = (fs', Inr u)"
  shows "\<exists>fs0 s b.
      (if cp then mkdir_parents w fs (path_parent p) else (fs, Inr ())) = (fs0, Inr ())
      \<and> json_dump w (default_or dflt (json_default w)) ea ind data = (s, None)
      \<and> encode w enc (s @ newline) = Inr b \<and> fs' = fs0(p \<mapsto> File b) \<and> p \<noteq> []
      \<and> faults w Close = None"
proof -
  obtain fs0 r0 where prep: "(if cp then mkdir_parents w fs (path_parent p) else (fs, Inr ())) = (fs0, r0)"
    by (cases "if cp then mkdir_parents w fs (path_parent p) else (fs, Inr ())")
  with assms have r0: "r0 = Inr ()"
    by (cases r0) (simp_all add: write_json_def)
  obtain fs1 r1 where op: "open_write w fs0 p enc = (fs1, r1)"
    by (cases "open_write w fs0 p enc")
  with assms prep r0 obtain f where r1: "r1 = Inr f"
    by (cases r1) (simp_all add: write_json_def)
  with op have f: "p \<noteq> []" "fs1 = fs0(p \<mapsto> File [])"
      "f = \<lparr>h_path = p, h_encoding = enc, h_text = []\<rparr>"
    by (auto dest: open_write_Inr)
  obtain fs2 r2 where dl: "dump_line w fs1 f data ea ind (default_or dflt (json_default w)) = (fs2, r2)"
    by (cases "dump_line w fs1 f data ea ind (default_or dflt (json_default w))")
  with assms prep r0 op r1 have cl: "faults w Close = None" and same: "fs' = fs2"
      and "\<exists>f'. r2 = Inr f'"
    by (auto simp: write_json_def split: option.splits sum.splits)
  then obtain f' where "r2 = Inr f'" by blast
  with dl obtain s b where "json_dump w (default_or dflt (json_default w)) ea ind data = (s, None)"
      and "encode w (h_encoding f) (h_text f @ s @ newline) = Inr b"
      and "fs2 = fs1(h_path f \<mapsto> File b)"
    by (auto dest: dump_line_Inr)
  with f same cl prep r0 show ?thesis by auto
qed

lemma write_json_atomic_Inr:
  assumes "write_json w fs p data enc ind ea cp True dflt = (fs', Inr u)"
  shows "\<exists>fs0 fs1 tmp s b.
      (if cp then mkdir_parents w fs (path_parent p) else (fs, Inr ())) = (fs0, Inr ())
      \<and> named_temporary_file w fs0 enc (path_parent p) (''.'' @ path_name p @ ''.'') ''.tmp''
          = (fs1, Inr tmp)
      \<and> atomic_try w fs1 tmp data ea ind (default_or dflt (json_default w))
          = (fs0(h_path tmp \<mapsto> File b), Inr (tmp\<lparr>h_text := s @ newline\<rparr>))
      \<and> json_dump w (default_or dflt (json_default w)) ea ind data = (s, None)
      \<and> encode w enc (s @ newline) = Inr b \<and> fs' = fs0(p \<mapsto> File b) \<and> p \<noteq> []
      \<and> fs0 (h_path tmp) = None \<and> h_path tmp \<noteq> p
      \<and> faults w Close = None"
proof -
  obtain fs0 r0 where prep: "(if cp then mkdir_parents w fs (path_parent p) else (fs, Inr ())) = (fs0, r0)"
    by (cases "if cp then mkdir_parents w fs (path_parent p) else (fs, Inr ())")
  with assms have r0: "r0 = Inr ()"
    by (cases r0) (simp_all add: write_json_def)
  obtain fs1 r1 where nt: "named_temporary_file w fs0 enc (path_parent p)
      (''.'' @ path_name p @ ''.'') ''.tmp'' = (fs1, r1)"
    by (cases "named_temporary_file w fs0 enc (path_parent p) (''.'' @ path_name p @ ''.'') ''.tmp''")
  with assms prep r0 obtain tmp where r1: "r1 = Inr tmp"
    by (cases r1) (simp_all add: write_json_def)
  with nt obtain c where t: "h_path tmp = path_parent p @ [''.'' @ path_name p @ ''.'' @ c @ ''.tmp'']"
      and free: "fs0 (h_path tmp) = None" and fs1: "fs1 = fs0(h_path tmp \<mapsto> File [])"
      and enc: "h_encoding tmp = enc" and blank: "h_text tmp = []"
    by (auto dest!: named_temporary_file_Inr)
  from t temp_path_not_target [of p c] have np: "h_path tmp \<noteq> p" by simp
  from t have ne: "h_path tmp \<noteq> []" by simp
  obtain fs2 r2 where at: "atomic_try w fs1 tmp data ea ind (default_or dflt (json_default w)) = (fs2, r2)"
    by (cases "atomic_try w fs1 tmp data ea ind (default_or dflt (json_default w))")
  have "\<exists>tmp'. r2 = Inr tmp'"
  proof (cases r2)
    case (Inl e)
    with assms prep r0 nt r1 at show ?thesis
      by (simp add: write_json_def split: prod.splits)
  next
    case (Inr tmp')
    then show ?thesis by blast
  qed
  then obtain tmp' where r2: "r2 = Inr tmp'" by blast
  with at obtain s b where s: "json_dump w (default_or dflt (json_default w)) ea ind data = (s, None)"
      and b: "encode w (h_encoding tmp) (h_text tmp @ s @ newline) = Inr b"
      and fs2: "fs2 = fs1(h_path tmp \<mapsto> File b)"
    by (auto dest: atomic_try_Inr)
  have tmp': "tmp' = tmp\<lparr>h_text := s @ newline\<rparr>"
    using at r2 s blank
    by (auto simp: atomic_try_def dump_line_def dump_def write_text_def
        split: prod.splits sum.splits option.splits)
  from assms prep r0 nt r1 at r2 have cl: "faults w Close = None"
      and rp: "replace w fs2 (h_path tmp) p = (fs', Inr u)"
    by (auto simp: write_json_def split: option.splits)
  from rp obtain c' where "node_at fs2 (h_path tmp) = Some (File c')"
      and "fs' = (fs2(h_path tmp := None))(p \<mapsto> File c')" and pne: "p \<noteq> []"
    by (auto dest: replace_Inr)
  with fs2 fs1 ne free have "fs' = fs0(p \<mapsto> File b)"
    by (simp add: node_at_def fun_upd_idem)
  with prep r0 nt r1 at r2 tmp' fs2 fs1 s b enc blank pne free np cl show ?thesis
    by auto
qed

lemma write_json_Inr:
  assumes "write_json w fs p data enc ind ea cp atomic dflt = (fs', Inr u)"
  shows "\<exists>s b. json_dump w (default_or dflt (json_default w)) ea ind data = (s, None)
      \<and> encode w enc (s @ newline) = Inr b \<and> node_at fs' p = Some (File b)
      \<and> faults w Close = None"
proof (cases atomic)
  case True
  with assms show ?thesis
    by (auto simp: node_at_def dest!: write_json_atomic_Inr)
next
  case False
  with assms show ?thesis
    by (auto simp: node_at_def dest!: write_json_direct_Inr)
qed

text \<open>The writer returns normally when nothing stands in its way.\<close>

lemma first_free_exists:
  "\<exists>c\<in>set cs. node_at fs (dir @ [pre @ c @ suf]) = None \<Longrightarrow> first_free fs dir pre suf cs \<noteq> None"
  by (induction cs) auto

lemma write_json_succeeds:
  assumes prep: "(if cp then mkdir_parents w fs (path_parent p) else (fs, Inr ())) = (fs0, Inr ())"
    and parent: "node_at fs0 (path_parent p) = Some Dir"
    and target: "node_at fs0 p \<noteq> Some Dir"
    and nofault: "\<forall>st. faults w st = None"
    and s: "json_dump w (default_or dflt (json_default w)) ea ind data = (s, None)"
    and b0: "encode w enc s = Inr b0"
    and b: "encode w enc (s @ newline) = Inr b"
    and free: "atomic \<longrightarrow> (\<exists>c\<in>set (tmp_names w).
        node_at fs0 (path_parent p @ [''.'' @ path_name p @ ''.'' @ c @ ''.tmp'']) = None)"
  shows "write_json w fs p data enc ind ea cp atomic dflt = (fs0(p \<mapsto> File b), Inr ())"
proof (cases atomic)
  case False
  from target have ow: "open_write w fs0 p enc
      = (fs0(p \<mapsto> File []), Inr \<lparr>h_path = p, h_encoding = enc, h_text = []\<rparr>)"
    using parent nofault by (auto simp: open_write_def split: option.splits node.splits)
  have "dump_line w (fs0(p \<mapsto> File [])) \<lparr>h_path = p, h_encoding = enc, h_text = []\<rparr>
      data ea ind (default_or dflt (json_default w))
      = (fs0(p \<mapsto> File b), Inr \<lparr>h_path = p, h_encoding = enc, h_text = s @ newline\<rparr>)"
    using s b0 b nofault by (simp add: dump_line_def dump_def write_text_def)
  with False prep ow nofault show ?thesis
    by (simp add: write_json_def)
next
  case True
  with free have "first_free fs0 (path_parent p) (''.'' @ path_name p @ ''.'') ''.tmp'' (tmp_names w) \<noteq> None"
    by (intro first_free_exists) simp
  then obtain t where ff: "first_free fs0 (path_parent p) (''.'' @ path_name p @ ''.'') ''.tmp'' (tmp_names w) = Some t"
    by blast
  then obtain c where t: "t = path_parent p @ [''.'' @ path_name p @ ''.'' @ c @ ''.tmp'']"
      and tfree: "node_at fs0 t = None"
    by (auto dest!: first_free_Some)
  from t have tne: "t \<noteq> []" by simp
  from t temp_path_not_target [of p c] have tp: "t \<noteq> p" by simp
  from tfree tne have t0: "fs0 t = None" by (simp add: node_at_def)
  have nt: "named_temporary_file w fs0 enc (path_parent p) (''.'' @ path_name p @ ''.'') ''.tmp''
      = (fs0(t \<mapsto> File []), Inr \<lparr>h_path = t, h_encoding = enc, h_text = []\<rparr>)"
    using parent nofault ff by (simp add: named_temporary_file_def)
  have at: "atomic_try w (fs0(t \<mapsto> File [])) \<lparr>h_path = t, h_encoding = enc, h_text = []\<rparr>
      data ea ind (default_or dflt (json_default w))
      = (fs0(t \<mapsto> File b), Inr \<lparr>h_path = t, h_encoding = enc, h_text = s @ newline\<rparr>)"
    using s b0 b nofault by (simp add: atomic_try_def dump_line_def dump_def write_text_def)
  have pp: "node_at (fs0(t \<mapsto> File b)) (path_parent p) = Some Dir"
  proof -
    have "length (path_parent p) < length t" using t by simp
    then have "path_parent p \<noteq> t" by auto
    with parent show ?thesis by (auto simp: node_at_def split: if_splits)
  qed
  have "replace w (fs0(t \<mapsto> File b)) t p = (((fs0(t \<mapsto> File b))(t := None))(p \<mapsto> File b), Inr ())"
    using target tp tne pp nofault
    by (auto simp: replace_def node_at_def split: option.splits node.splits if_splits)
  moreover from t0 have "(fs0(t \<mapsto> File b))(t := None) = fs0"
    by (simp add: fun_upd_idem)
  ultimately have "replace w (fs0(t \<mapsto> File b)) t p = (fs0(p \<mapsto> File b), Inr ())"
    by simp
  with True prep nt at nofault show ?thesis
    by (simp add: write_json_def)
qed

lemma missing_parent_nonempty:
  "node_at fs (path_parent p) = None \<Longrightarrow> p \<noteq> [] \<and> path_parent p \<noteq> []"
  by (auto simp: node_at_def path_parent_def split: if_splits)

text \<open>The functions of the writer do not look at the serializer, except \<open>dump\<close>.\<close>

lemma py_str_json_dump_update [simp]:
  "py_str (w\<lparr>json_dump := jd\<rparr>) v = py_str w v"
  by (cases v) simp_all

lemma json_default_json_dump_update [simp]:
  "json_default (w\<lparr>json_dump := jd\<rparr>) = json_default w"
proof
  fix v
  have rs: "return_str (w\<lparr>json_dump := jd\<rparr>) v = return_str w v"
    by (simp add: return_str_def)
  have er: "epsg_rule (w\<lparr>json_dump := jd\<rparr>) m = epsg_rule w m" for m
    by (simp add: epsg_rule_def split: option.splits)
  show "json_default (w\<lparr>json_dump := jd\<rparr>) v = json_default w v"
    by (simp add: json_default_def rs er split: option.splits)
qed

lemma write_text_json_dump_update [simp]:
  "write_text (w\<lparr>json_dump := jd\<rparr>) st fs h s = write_text w st fs h s"
  by (simp add: write_text_def split: sum.splits option.splits)

lemma mkdir_parents_json_dump_update [simp]:
  "mkdir_parents (w\<lparr>json_dump := jd\<rparr>) fs d = mkdir_parents w fs d"
  by (simp add: mkdir_parents_def)

lemma open_write_json_dump_update [simp]:
  "open_write (w\<lparr>json_dump := jd\<rparr>) fs p enc = open_write w fs p enc"
  by (simp add: open_write_def split: option.splits node.splits)

lemma named_temporary_file_json_dump_update [simp]:
  "named_temporary_file (w\<lparr>json_dump := jd\<rparr>) fs enc dir pre suf
     = named_temporary_file w fs enc dir pre suf"
  by (simp add: named_temporary_file_def split: option.splits node.splits)

lemma cleanup_json_dump_update [simp]:
  "cleanup (w\<lparr>json_dump := jd\<rparr>) fs t e = cleanup w fs t e"
  by (simp add: cleanup_def unlink_def split: option.splits node.splits)

lemma replace_json_dump_update [simp]:
  "replace (w\<lparr>json_dump := jd\<rparr>) fs src dst = replace w fs src dst"
  by (simp add: replace_def split: option.splits node.splits)

text \<open>The definitions that a run of the reader and the writer on concrete input unfolds.\<close>

lemmas file_io_defs =
  write_json_def mkdir_parents_def ancestors_def node_at_def path_parent_def path_name_def
  open_write_def named_temporary_file_def atomic_try_def dump_line_def dump_def write_text_def
  cleanup_def unlink_def replace_def default_or_def read_json_def path_exists_def load_def

lemmas example_defs =
  example_world_def example_fs_def failing_def utf8_def literal_dump_def literal_load_def
  newline_def answer_true_def wired_dump_def boxed_seven_def true_callable_def false_callable_def

text \<open>
  Claim C1, as the code has it. Take an atomic write whose temporary file was created
  and whose \<^verbatim>\<open>try\<close> block (serialization, newline, flush, fsync) raised \<open>e\<close>. The
  call raises, and the target path holds what it held before the call (or is still
  absent). When closing the temporary file in the handler does not fail, the exception
  raised is \<open>e\<close> itself. When the best-effort deletion does not fail, the file system
  is the one the parent-directory step left: the temporary file is gone.
\<close>

theorem atomic_failure_cleanup:
  assumes prep: "(if create_parents then mkdir_parents w fs (path_parent p) else (fs, Inr ()))
      = (fs0, Inr ())"
    and temp: "named_temporary_file w fs0 enc (path_parent p) (''.'' @ path_name p @ ''.'') ''.tmp''
      = (fs1, Inr tmp)"
    and fail: "atomic_try w fs1 tmp data ea ind (default_or dflt (json_default w)) = (fs2, Inl e)"
  shows "(case write_json w fs p data enc ind ea create_parents True dflt of
           (fs', r) \<Rightarrow>
             isl r
             \<and> node_at fs' p = node_at fs p
             \<and> (faults w Close = None \<longrightarrow> r = Inl e)
             \<and> (faults w Unlink = None \<longrightarrow> fs' = fs0 \<and> fs' (h_path tmp) = None))"
proof -
  note st = atomic_failure_state [OF prep temp fail]
  from prep have tgt: "node_at fs0 p = node_at fs p"
    by (rule prepare_target)
  from st(2) have "node_at fs2 p = node_at fs0 p"
    by (simp add: node_at_def)
  moreover from st(5) have "fs0 (h_path tmp) = None"
    by (metis fun_upd_same)
  ultimately show ?thesis
    using st(1) tgt by (simp split: option.splits)
qed

theorem atomic_failure_cleanup_witness:
  "snd (write_json (failing [(Fsync, ''EIO'')]) example_fs [''data'', ''out.json''] (PBool True)
          ''utf-8'' (Some 2) False True True None) = Inl (OSError ''EIO'')
   \<and> node_at (fst (write_json (failing [(Fsync, ''EIO'')]) example_fs [''data'', ''out.json'']
          (PBool True) ''utf-8'' (Some 2) False True True None)) [''data'', ''out.json'']
       = Some (File ''old'')
   \<and> fst (write_json (failing [(Fsync, ''EIO'')]) example_fs [''data'', ''out.json''] (PBool True)
          ''utf-8'' (Some 2) False True True None) [''data'', ''.out.json.k3x9.tmp''] = None"
proof -
  let ?w = "failing [(Fsync, ''EIO'')]"
  let ?p = "[''data'', ''out.json'']"
  let ?fs0 = "fst (mkdir_parents ?w example_fs (path_parent ?p))"
  let ?tmp = "\<lparr>h_path = [''data'', ''.out.json.k3x9.tmp''], h_encoding = ''utf-8'', h_text = []\<rparr>"
  let ?fs1 = "fst (named_temporary_file ?w ?fs0 ''utf-8'' (path_parent ?p)
      (''.'' @ path_name ?p @ ''.'') ''.tmp'')"
  let ?fs2 = "fst (atomic_try ?w ?fs1 ?tmp (PBool True) False (Some 2) (default_or None (json_default ?w)))"
  have prep: "(if True then mkdir_parents ?w example_fs (path_parent ?p) else (example_fs, Inr ()))
      = (?fs0, Inr ())"
    by (simp add: prod_eq_iff file_io_defs example_defs)
  have temp: "named_temporary_file ?w ?fs0 ''utf-8'' (path_parent ?p) (''.'' @ path_name ?p @ ''.'') ''.tmp''
      = (?fs1, Inr ?tmp)"
    by (simp add: prod_eq_iff file_io_defs example_defs)
  have fail: "atomic_try ?w ?fs1 ?tmp (PBool True) False (Some 2) (default_or None (json_default ?w))
      = (?fs2, Inl (OSError ''EIO''))"
    by (simp add: prod_eq_iff file_io_defs example_defs)
  have quiet: "faults ?w Close = None" "faults ?w Unlink = None"
    by (simp_all add: example_defs)
  have old: "node_at example_fs ?p = Some (File ''old'')"
    by (simp add: node_at_def example_fs_def)
  let ?r = "write_json ?w example_fs ?p (PBool True) ''utf-8'' (Some 2) False True True None"
  note c = atomic_failure_cleanup [OF prep temp fail, unfolded split_beta]
  from c quiet have raised: "snd ?r = Inl (OSError ''EIO'')"
    by blast
  from c have "node_at (fst ?r) ?p = node_at example_fs ?p"
    by blast
  with old have kept: "node_at (fst ?r) ?p = Some (File ''old'')"
    by simp
  from c quiet have "fst ?r (h_path ?tmp) = None"
    by blast
  then have gone: "fst ?r [''data'', ''.out.json.k3x9.tmp''] = None"
    by simp
  from raised kept gone show ?thesis
    by (intro conjI)
qed

text \<open>
  Claim C1 as stated, for every such write, fails in two ways. A write to
  \<^verbatim>\<open>data/out.json\<close> whose \<^verbatim>\<open>fsync\<close> fails and whose \<^verbatim>\<open>unlink\<close> fails as well (the
  failure is suppressed) raises the \<^verbatim>\<open>fsync\<close> error and leaves
  \<^verbatim>\<open>data/.out.json.k3x9.tmp\<close> behind, which was not there before. A write whose
  \<^verbatim>\<open>fsync\<close> fails and whose \<^verbatim>\<open>close\<close> in the handler fails raises the error of
  the close, not the original one.
\<close>

theorem atomic_failure_counterexample:
  "example_fs [''data'', ''.out.json.k3x9.tmp''] = None
   \<and> snd (write_json (failing [(Fsync, ''EIO''), (Unlink, ''EACCES'')]) example_fs
          [''data'', ''out.json''] (PBool True) ''utf-8'' (Some 2) False True True None)
       = Inl (OSError ''EIO'')
   \<and> fst (write_json (failing [(Fsync, ''EIO''), (Unlink, ''EACCES'')]) example_fs
          [''data'', ''out.json''] (PBool True) ''utf-8'' (Some 2) False True True None)
         [''data'', ''.out.json.k3x9.tmp''] = Some (File ''true\<newline>'')
   \<and> snd (write_json (failing [(Fsync, ''EIO''), (Close, ''EBADF'')]) example_fs
          [''data'', ''out.json''] (PBool True) ''utf-8'' (Some 2) False True True None)
       = Inl (OSError ''EBADF'')"
  by (simp add: file_io_defs example_defs)

text \<open>
  Claim C2. Let \<^verbatim>\<open>write_json\<close> return normally for the value \<open>v\<close>, in atomic or
  direct mode, with any indentation. If \<open>v\<close> is JSON-serializable (the text the
  serializer writes for \<open>v\<close>, followed by the newline, parses back to \<open>v\<close>), the
  codec decodes what it encoded, and opening and reading the file do not fail, then
  \<^verbatim>\<open>read_json\<close> on the same path with the same encoding returns \<open>v\<close>.
\<close>

theorem write_then_read:
  assumes written: "write_json w fs p v enc ind ea cp atomic dflt = (fs', Inr ())"
    and serializable:
      "json_load w (fst (json_dump w (default_or dflt (json_default w)) ea ind v) @ newline) = Inr v"
    and codec: "\<forall>t b. encode w enc t = Inr b \<longrightarrow> decode w enc b = Inr t"
    and readable: "faults w OpenRead = None" "faults w ReadFile = None"
  shows "read_json w fs' p enc = Inr v"
proof -
  from written obtain s b
    where s: "json_dump w (default_or dflt (json_default w)) ea ind v = (s, None)"
      and b: "encode w enc (s @ newline) = Inr b"
      and stored: "node_at fs' p = Some (File b)" and cl: "faults w Close = None"
    by (auto dest!: write_json_Inr)
  from codec b have "decode w enc b = Inr (s @ newline)" by blast
  moreover from serializable s have "json_load w (s @ newline) = Inr v" by simp
  ultimately show ?thesis
    using stored cl readable by (simp add: read_json_def path_exists_def load_def)
qed

theorem write_then_read_witness:
  "snd (write_json example_world example_fs [''data'', ''out.json''] (PBool True)
          ''utf-8'' (Some 2) False True True None) = Inr ()
   \<and> read_json example_world
        (fst (write_json example_world example_fs [''data'', ''out.json''] (PBool True)
           ''utf-8'' (Some 2) False True True None))
        [''data'', ''out.json''] ''utf-8'' = Inr (PBool True)
   \<and> snd (write_json example_world example_fs [''data'', ''new.json''] PNone
          ''utf-8'' None True True False None) = Inr ()
   \<and> read_json example_world
        (fst (write_json example_world example_fs [''data'', ''new.json''] PNone
           ''utf-8'' None True True False None))
        [''data'', ''new.json''] ''utf-8'' = Inr PNone"
proof -
  let ?r = "write_json example_world example_fs [''data'', ''out.json''] (PBool True)
      ''utf-8'' (Some 2) False True True None"
  let ?q = "write_json example_world example_fs [''data'', ''new.json''] PNone
      ''utf-8'' None True True False None"
  have r: "snd ?r = Inr ()"
    by (simp add: file_io_defs example_defs)
  then have wr: "?r = (fst ?r, Inr ())"
    by (simp add: prod_eq_iff)
  have q: "snd ?q = Inr ()"
    by (simp add: file_io_defs example_defs)
  then have wq: "?q = (fst ?q, Inr ())"
    by (simp add: prod_eq_iff)
  have ser1: "json_load example_world
      (fst (json_dump example_world (default_or None (json_default example_world)) False (Some 2)
         (PBool True)) @ newline) = Inr (PBool True)"
    by (simp add: example_defs)
  have ser2: "json_load example_world
      (fst (json_dump example_world (default_or None (json_default example_world)) True None
         PNone) @ newline) = Inr PNone"
    by (simp add: example_defs)
  have codec: "\<forall>t b. encode example_world ''utf-8'' t = Inr b \<longrightarrow> decode example_world ''utf-8'' b = Inr t"
    by (simp add: example_defs)
  have readable: "faults example_world OpenRead = None" "faults example_world ReadFile = None"
    by (simp_all add: example_defs)
  from write_then_read [OF wr ser1 codec readable] write_then_read [OF wq ser2 codec readable] r q
  show ?thesis
    by (intro conjI)
qed

text \<open>
  Claim C3, as the code has it. Take an atomic write whose temporary file was created.
  If the call returns normally, the temporary path no longer exists and the target holds
  the content the temporary file had after the \<^verbatim>\<open>try\<close> block: the file was renamed
  into the target. If the \<^verbatim>\<open>try\<close> block raised and the best-effort deletion does not
  fail, the temporary path no longer exists either. Nothing is said about a call in which
  the final \<^verbatim>\<open>os.replace\<close> raises: that call is outside the \<^verbatim>\<open>try\<close> statement and
  has no cleanup.
\<close>

theorem temporary_file_lifecycle:
  assumes prep: "(if create_parents then mkdir_parents w fs (path_parent p) else (fs, Inr ()))
      = (fs0, Inr ())"
    and temp: "named_temporary_file w fs0 enc (path_parent p) (''.'' @ path_name p @ ''.'') ''.tmp''
      = (fs1, Inr tmp)"
  shows "(case write_json w fs p data enc ind ea create_parents True dflt of
           (fs', r) \<Rightarrow>
             (r = Inr () \<longrightarrow>
                fs' (h_path tmp) = None
                \<and> (\<exists>b. node_at fs' p = Some (File b)
                      \<and> fst (atomic_try w fs1 tmp data ea ind (default_or dflt (json_default w)))
                          (h_path tmp) = Some (File b)))
             \<and> (isl (snd (atomic_try w fs1 tmp data ea ind (default_or dflt (json_default w)))) \<longrightarrow>
                  faults w Unlink = None \<longrightarrow> fs' (h_path tmp) = None))"
proof -
  obtain fs2 body where at: "atomic_try w fs1 tmp data ea ind (default_or dflt (json_default w)) = (fs2, body)"
    by (cases "atomic_try w fs1 tmp data ea ind (default_or dflt (json_default w))")
  obtain fs' r where wr: "write_json w fs p data enc ind ea create_parents True dflt = (fs', r)"
    by (cases "write_json w fs p data enc ind ea create_parents True dflt")
  show ?thesis
  proof (cases body)
    case (Inl e)
    note st = atomic_failure_state [OF prep temp at [unfolded Inl]]
    from st(5) have "fs0 (h_path tmp) = None"
      by (metis fun_upd_same)
    with st(1) wr at Inl show ?thesis by auto
  next
    case (Inr tmp')
    have "r = Inr () \<Longrightarrow> fs' (h_path tmp) = None
        \<and> (\<exists>b. node_at fs' p = Some (File b) \<and> fs2 (h_path tmp) = Some (File b))"
    proof -
      assume "r = Inr ()"
      with wr have "write_json w fs p data enc ind ea create_parents True dflt = (fs', Inr ())"
        by simp
      from write_json_atomic_Inr [OF this] prep temp at
      obtain b where "fs2 = fs0(h_path tmp \<mapsto> File b)" "fs' = fs0(p \<mapsto> File b)" "p \<noteq> []"
          "fs0 (h_path tmp) = None" "h_path tmp \<noteq> p"
        by auto
      then show ?thesis by (auto simp: node_at_def)
    qed
    with wr at Inr show ?thesis by auto
  qed
qed

theorem temporary_file_lifecycle_witness:
  "snd (write_json example_world example_fs [''data'', ''out.json''] (PBool True)
          ''utf-8'' (Some 2) False True True None) = Inr ()
   \<and> fst (write_json example_world example_fs [''data'', ''out.json''] (PBool True)
          ''utf-8'' (Some 2) False True True None) [''data'', ''.out.json.k3x9.tmp''] = None
   \<and> node_at (fst (write_json example_world example_fs [''data'', ''out.json''] (PBool True)
          ''utf-8'' (Some 2) False True True None)) [''data'', ''out.json'']
       = Some (File ''true\<newline>'')
   \<and> snd (write_json (failing [(Flush, ''EIO'')]) example_fs [''data'', ''out.json'']
          (PBool True) ''utf-8'' (Some 2) False True True None) = Inl (OSError ''EIO'')
   \<and> fst (write_json (failing [(Flush, ''EIO'')]) example_fs [''data'', ''out.json'']
          (PBool True) ''utf-8'' (Some 2) False True True None)
         [''data'', ''.out.json.k3x9.tmp''] = None"
proof -
  let ?p = "[''data'', ''out.json'']"
  let ?tmp = "\<lparr>h_path = [''data'', ''.out.json.k3x9.tmp''], h_encoding = ''utf-8'', h_text = []\<rparr>"
  let ?w = "example_world"
  let ?fs0 = "fst (mkdir_parents ?w example_fs (path_parent ?p))"
  let ?fs1 = "fst (named_temporary_file ?w ?fs0 ''utf-8'' (path_parent ?p)
      (''.'' @ path_name ?p @ ''.'') ''.tmp'')"
  let ?r = "write_json ?w example_fs ?p (PBool True) ''utf-8'' (Some 2) False True True None"
  let ?v = "failing [(Flush, ''EIO'')]"
  let ?gs0 = "fst (mkdir_parents ?v example_fs (path_parent ?p))"
  let ?gs1 = "fst (named_temporary_file ?v ?gs0 ''utf-8'' (path_parent ?p)
      (''.'' @ path_name ?p @ ''.'') ''.tmp'')"
  let ?q = "write_json ?v example_fs ?p (PBool True) ''utf-8'' (Some 2) False True True None"
  have prep: "(if True then mkdir_parents ?w example_fs (path_parent ?p) else (example_fs, Inr ()))
      = (?fs0, Inr ())"
    by (simp add: prod_eq_iff file_io_defs example_defs)
  have temp: "named_temporary_file ?w ?fs0 ''utf-8'' (path_parent ?p) (''.'' @ path_name ?p @ ''.'') ''.tmp''
      = (?fs1, Inr ?tmp)"
    by (simp add: prod_eq_iff file_io_defs example_defs)
  have success: "snd ?r = Inr ()"
    by (simp add: file_io_defs example_defs)
  have content: "fst (atomic_try ?w ?fs1 ?tmp (PBool True) False (Some 2)
      (default_or None (json_default ?w))) (h_path ?tmp) = Some (File ''true\<newline>'')"
    by (simp add: file_io_defs example_defs)
  note c = temporary_file_lifecycle [OF prep temp, unfolded split_beta,
      where data = "PBool True" and ind = "Some 2" and ea = False and dflt = None]
  from c success have "fst ?r (h_path ?tmp) = None
      \<and> (\<exists>b. node_at (fst ?r) ?p = Some (File b)
            \<and> fst (atomic_try ?w ?fs1 ?tmp (PBool True) False (Some 2)
                  (default_or None (json_default ?w))) (h_path ?tmp) = Some (File b))"
    by blast
  with content have moved: "fst ?r [''data'', ''.out.json.k3x9.tmp''] = None"
      "node_at (fst ?r) ?p = Some (File ''true\<newline>'')"
    by auto
  have prep': "(if True then mkdir_parents ?v example_fs (path_parent ?p) else (example_fs, Inr ()))
      = (?gs0, Inr ())"
    by (simp add: prod_eq_iff file_io_defs example_defs)
  have temp': "named_temporary_file ?v ?gs0 ''utf-8'' (path_parent ?p) (''.'' @ path_name ?p @ ''.'') ''.tmp''
      = (?gs1, Inr ?tmp)"
    by (simp add: prod_eq_iff file_io_defs example_defs)
  have failed: "isl (snd (atomic_try ?v ?gs1 ?tmp (PBool True) False (Some 2)
      (default_or None (json_default ?v))))"
    by (simp add: file_io_defs example_defs)
  have quiet: "faults ?v Unlink = None"
    by (simp add: example_defs)
  have raised: "snd ?q = Inl (OSError ''EIO'')"
    by (simp add: file_io_defs example_defs)
  note c' = temporary_file_lifecycle [OF prep' temp', unfolded split_beta,
      where data = "PBool True" and ind = "Some 2" and ea = False and dflt = None]
  from c' failed quiet have "fst ?q (h_path ?tmp) = None"
    by blast
  then have deleted: "fst ?q [''data'', ''.out.json.k3x9.tmp''] = None"
    by simp
  from success moved raised deleted show ?thesis
    by (intro conjI)
qed

text \<open>
  Claim C3 as stated, with the temporary file never left behind, fails in two ways. An
  atomic write to \<^verbatim>\<open>data\<close>, which is a directory, writes
  \<^verbatim>\<open>.data.k3x9.tmp\<close>, fails in \<^verbatim>\<open>os.replace\<close> with \<^verbatim>\<open>IsADirectoryError\<close> and leaves
  that file behind. A write whose serializer output cannot be written and whose
  \<^verbatim>\<open>unlink\<close> fails as well leaves the empty temporary file behind.
\<close>

theorem temporary_file_counterexample:
  "example_fs [''.data.k3x9.tmp''] = None
   \<and> snd (write_json example_world example_fs [''data''] (PBool True) ''utf-8'' (Some 2)
          False True True None) = Inl IsADirectoryError
   \<and> fst (write_json example_world example_fs [''data''] (PBool True) ''utf-8'' (Some 2)
          False True True None) [''.data.k3x9.tmp''] = Some (File ''true\<newline>'')
   \<and> snd (write_json (failing [(DumpWrite, ''ENOSPC''), (Unlink, ''EPERM'')]) example_fs
          [''data'', ''out.json''] (PBool True) ''utf-8'' (Some 2) False True True None)
       = Inl (OSError ''ENOSPC'')
   \<and> fst (write_json (failing [(DumpWrite, ''ENOSPC''), (Unlink, ''EPERM'')]) example_fs
          [''data'', ''out.json''] (PBool True) ''utf-8'' (Some 2) False True True None)
         [''data'', ''.out.json.k3x9.tmp''] = Some (File [])"
  by (simp add: file_io_defs example_defs)

text \<open>
  Claim C6. Let the parent directory of the target not exist. With
  \<^verbatim>\<open>create_parents\<close> off, the call raises \<^verbatim>\<open>FileNotFoundError\<close>, an
  \<^verbatim>\<open>OSError\<close>, in both modes and whatever else the environment does, and the file
  system is unchanged. With \<^verbatim>\<open>create_parents\<close> on, and nothing else in the way (no
  regular file among the ancestors, no target, no injected failure, a value the
  serializer and the codec accept, a free temporary name in atomic mode), the call
  returns normally: the parent and all its ancestors are directories, the target holds
  the encoded text, and everything that existed before is as it was, so directories
  that already exist are passed over without error.
\<close>

theorem write_json_missing_parent:
  assumes missing: "node_at fs (path_parent p) = None"
  shows "write_json w fs p data enc ind ea False atomic dflt = (fs, Inl FileNotFoundError)
    \<and> is_OSError FileNotFoundError
    \<and> ((\<forall>q\<in>set (ancestors (path_parent p)). \<not> is_File (node_at fs q)) \<longrightarrow>
         fs p = None \<longrightarrow>
         (\<forall>st. faults w st = None) \<longrightarrow>
         json_dump w (default_or dflt (json_default w)) ea ind data = (s, None) \<longrightarrow>
         encode w enc s = Inr b0 \<longrightarrow>
         encode w enc (s @ newline) = Inr b \<longrightarrow>
         (atomic \<longrightarrow> (\<exists>c\<in>set (tmp_names w).
            fs (path_parent p @ [''.'' @ path_name p @ ''.'' @ c @ ''.tmp'']) = None)) \<longrightarrow>
         (\<exists>fs'. write_json w fs p data enc ind ea True atomic dflt = (fs', Inr ())
            \<and> node_at fs' (path_parent p) = Some Dir
            \<and> (\<forall>q\<in>set (ancestors (path_parent p)). node_at fs' q = Some Dir)
            \<and> node_at fs' p = Some (File b)
            \<and> (\<forall>q. node_at fs q \<noteq> None \<longrightarrow> node_at fs' q = node_at fs q)))"
proof (intro conjI impI)
  show "write_json w fs p data enc ind ea False atomic dflt = (fs, Inl FileNotFoundError)"
    using missing by (simp add: write_json_def open_write_def named_temporary_file_def)
  show "is_OSError FileNotFoundError" by simp
next
  assume anc: "\<forall>q\<in>set (ancestors (path_parent p)). \<not> is_File (node_at fs q)"
    and absent: "fs p = None"
    and nofault: "\<forall>st. faults w st = None"
    and s: "json_dump w (default_or dflt (json_default w)) ea ind data = (s, None)"
    and b0: "encode w enc s = Inr b0"
    and b: "encode w enc (s @ newline) = Inr b"
    and free: "atomic \<longrightarrow> (\<exists>c\<in>set (tmp_names w).
        fs (path_parent p @ [''.'' @ path_name p @ ''.'' @ c @ ''.tmp'']) = None)"
  from missing have ne: "p \<noteq> []" "path_parent p \<noteq> []"
    by (auto dest: missing_parent_nonempty)
  define fs0 where "fs0 = (\<lambda>q. if (q \<in> set (ancestors (path_parent p)) \<or> q = path_parent p)
      \<and> node_at fs q = None then Some Dir else fs q)"
  have mk: "mkdir_parents w fs (path_parent p) = (fs0, Inr ())"
    using anc missing nofault by (simp add: mkdir_parents_def fs0_def list_ex_iff)
  have parent: "node_at fs0 (path_parent p) = Some Dir"
    using missing ne by (simp add: fs0_def node_at_def)
  have ancs: "\<forall>q\<in>set (ancestors (path_parent p)). node_at fs0 q = Some Dir"
  proof
    fix q assume q: "q \<in> set (ancestors (path_parent p))"
    with anc have nf: "\<not> is_File (node_at fs q)" by blast
    show "node_at fs0 q = Some Dir"
    proof (cases "node_at fs q")
      case None
      with q show ?thesis by (auto simp: fs0_def node_at_def split: if_splits)
    next
      case (Some n)
      with nf have "n = Dir" by (cases n) auto
      with Some q show ?thesis by (auto simp: fs0_def node_at_def split: if_splits)
    qed
  qed
  from not_own_ancestor [OF ne(1)] have out: "p \<notin> set (ancestors (path_parent p))" "p \<noteq> path_parent p"
    by auto
  with absent ne have target: "node_at fs0 p \<noteq> Some Dir"
    by (simp add: fs0_def node_at_def)
  have free0: "atomic \<longrightarrow> (\<exists>c\<in>set (tmp_names w).
      node_at fs0 (path_parent p @ [''.'' @ path_name p @ ''.'' @ c @ ''.tmp'']) = None)"
  proof
    assume atomic
    with free obtain c where c: "c \<in> set (tmp_names w)"
        and f: "fs (path_parent p @ [''.'' @ path_name p @ ''.'' @ c @ ''.tmp'']) = None"
      by blast
    let ?t = "path_parent p @ [''.'' @ path_name p @ ''.'' @ c @ ''.tmp'']"
    have "length (path_parent p) < length ?t" by simp
    then have "?t \<noteq> path_parent p" by auto
    moreover have "?t \<notin> set (ancestors (path_parent p))"
    proof
      assume "?t \<in> set (ancestors (path_parent p))"
      then have "length ?t < length (path_parent p)" by (rule ancestors_length)
      then show False by simp
    qed
    ultimately have "node_at fs0 ?t = None"
      using f by (simp add: fs0_def node_at_def)
    with c show "\<exists>c\<in>set (tmp_names w).
        node_at fs0 (path_parent p @ [''.'' @ path_name p @ ''.'' @ c @ ''.tmp'']) = None"
      by blast
  qed
  from mk have prep: "(if True then mkdir_parents w fs (path_parent p) else (fs, Inr ())) = (fs0, Inr ())"
    by simp
  have wr: "write_json w fs p data enc ind ea True atomic dflt = (fs0(p \<mapsto> File b), Inr ())"
    by (rule write_json_succeeds [OF prep parent target nofault s b0 b free0])
  have keep: "\<forall>q. node_at fs q \<noteq> None \<longrightarrow> node_at (fs0(p \<mapsto> File b)) q = node_at fs q"
  proof (intro allI impI)
    fix q assume ex: "node_at fs q \<noteq> None"
    with absent ne have "q \<noteq> p" by (auto simp: node_at_def)
    moreover from ex have "node_at fs0 q = node_at fs q"
      by (auto simp: fs0_def node_at_def split: if_splits)
    ultimately show "node_at (fs0(p \<mapsto> File b)) q = node_at fs q"
      by (auto simp: node_at_def split: if_splits)
  qed
  have "node_at (fs0(p \<mapsto> File b)) (path_parent p) = Some Dir"
    using parent out(2) by (auto simp: node_at_def split: if_splits)
  moreover have "\<forall>q\<in>set (ancestors (path_parent p)). node_at (fs0(p \<mapsto> File b)) q = Some Dir"
    using ancs out(1) by (auto simp: node_at_def split: if_splits)
  moreover have "node_at (fs0(p \<mapsto> File b)) p = Some (File b)"
    using ne by (simp add: node_at_def)
  ultimately show "\<exists>fs'. write_json w fs p data enc ind ea True atomic dflt = (fs', Inr ())
      \<and> node_at fs' (path_parent p) = Some Dir
      \<and> (\<forall>q\<in>set (ancestors (path_parent p)). node_at fs' q = Some Dir)
      \<and> node_at fs' p = Some (File b)
      \<and> (\<forall>q. node_at fs q \<noteq> None \<longrightarrow> node_at fs' q = node_at fs q)"
    using wr keep by blast
qed

theorem write_json_missing_parent_witness:
  "node_at example_fs (path_parent [''a'', ''b'', ''out.json'']) = None
   \<and> write_json example_world example_fs [''a'', ''b'', ''out.json''] (PBool True) ''utf-8''
        (Some 2) False False True None = (example_fs, Inl FileNotFoundError)
   \<and> write_json example_world example_fs [''a'', ''b'', ''out.json''] (PBool True) ''utf-8''
        (Some 2) False False False None = (example_fs, Inl FileNotFoundError)
   \<and> (\<exists>fs'. write_json example_world example_fs [''a'', ''b'', ''out.json''] (PBool True)
          ''utf-8'' (Some 2) False True True None = (fs', Inr ())
        \<and> node_at fs' [''a''] = Some Dir
        \<and> node_at fs' [''a'', ''b''] = Some Dir
        \<and> node_at fs' [''a'', ''b'', ''out.json''] = Some (File ''true\<newline>'')
        \<and> node_at fs' [''data'', ''out.json''] = Some (File ''old''))"
proof -
  let ?p = "[''a'', ''b'', ''out.json'']"
  have missing: "node_at example_fs (path_parent ?p) = None"
    by (simp add: node_at_def path_parent_def example_fs_def)
  have anc: "ancestors (path_parent ?p) = [[''a'']]"
    by (simp add: ancestors_def path_parent_def upt_rec)
  have clear: "\<forall>q\<in>set (ancestors (path_parent ?p)). \<not> is_File (node_at example_fs q)"
    by (simp add: anc node_at_def example_fs_def)
  have absent: "example_fs ?p = None"
    by (simp add: example_fs_def)
  have quiet: "\<forall>st. faults example_world st = None"
    by (simp add: example_defs)
  have ser: "json_dump example_world (default_or None (json_default example_world)) False (Some 2)
      (PBool True) = (''true'', None)"
    by (simp add: example_defs)
  have e0: "encode example_world ''utf-8'' ''true'' = Inr ''true''"
    by (simp add: example_defs)
  have e1: "encode example_world ''utf-8'' (''true'' @ newline) = Inr ''true\<newline>''"
    by (simp add: example_defs)
  have free: "True \<longrightarrow> (\<exists>c\<in>set (tmp_names example_world).
      example_fs (path_parent ?p @ [''.'' @ path_name ?p @ ''.'' @ c @ ''.tmp'']) = None)"
    by (auto simp: example_defs path_parent_def path_name_def)
  have old: "node_at example_fs [''data'', ''out.json''] = Some (File ''old'')"
    by (simp add: node_at_def example_fs_def)
  note c = write_json_missing_parent [OF missing, where w = example_world and data = "PBool True"
      and enc = "''utf-8''" and ind = "Some 2" and ea = False and dflt = None]
  from c [where atomic = True] have off1: "write_json example_world example_fs ?p (PBool True) ''utf-8''
      (Some 2) False False True None = (example_fs, Inl FileNotFoundError)"
    by blast
  from c [where atomic = False] have off2: "write_json example_world example_fs ?p (PBool True) ''utf-8''
      (Some 2) False False False None = (example_fs, Inl FileNotFoundError)"
    by blast
  from c [where atomic = True and s = "''true''" and ?b0.0 = "''true''" and b = "''true\<newline>''"]
    clear absent quiet ser e0 e1 free
  obtain fs' where w: "write_json example_world example_fs ?p (PBool True) ''utf-8'' (Some 2)
        False True True None = (fs', Inr ())"
      and d: "node_at fs' (path_parent ?p) = Some Dir"
      and a: "\<forall>q\<in>set (ancestors (path_parent ?p)). node_at fs' q = Some Dir"
      and f: "node_at fs' ?p = Some (File ''true\<newline>'')"
      and k: "\<forall>q. node_at example_fs q \<noteq> None \<longrightarrow> node_at fs' q = node_at example_fs q"
    by blast
  from d have d': "node_at fs' [''a'', ''b''] = Some Dir"
    by (simp add: path_parent_def)
  from a anc have a': "node_at fs' [''a''] = Some Dir"
    by simp
  from k old have k': "node_at fs' [''data'', ''out.json''] = Some (File ''old'')"
    by simp
  from missing off1 off2 w a' d' f k' show ?thesis
    by blast
qed

lemma default_or_true: "truthy c \<Longrightarrow> default_or (Some c) fallback = func_of c"
  by (simp add: default_or_def)

text \<open>
  Claim C7, as the code has it. When the caller gives a \<^verbatim>\<open>default\<close> callable \<open>c\<close>
  that is true in a Boolean context, as every function is, the serializer is called
  with \<open>c\<close> and with nothing else: replacing the serializer by any \<open>jd\<close> that agrees
  with it on \<open>c\<close>, whatever \<open>jd\<close> does with other callables such as the default
  chain, does not change the outcome of the write, in either mode; and when the write
  returns, the target holds the encoding of the text the serializer produced with
  \<open>c\<close>.
\<close>

theorem caller_default_is_passed:
  "(truthy c \<longrightarrow>
      (\<forall>ensure_ascii indent v.
         jd (func_of c) ensure_ascii indent v = json_dump w (func_of c) ensure_ascii indent v) \<longrightarrow>
      write_json (w\<lparr>json_dump := jd\<rparr>) fs p data enc ind ea cp atomic (Some c)
        = write_json w fs p data enc ind ea cp atomic (Some c))
   \<and> (truthy c \<longrightarrow>
        write_json w fs p data enc ind ea cp atomic (Some c) = (fs', Inr ()) \<longrightarrow>
        (\<exists>s b. json_dump w (func_of c) ea ind data = (s, None)
           \<and> encode w enc (s @ newline) = Inr b
           \<and> node_at fs' p = Some (File b)))"
proof (intro conjI impI)
  assume t: "truthy c"
    and agree: "\<forall>ensure_ascii indent v.
      jd (func_of c) ensure_ascii indent v = json_dump w (func_of c) ensure_ascii indent v"
  have dl: "dump_line (w\<lparr>json_dump := jd\<rparr>) fsx h data ea ind (func_of c)
      = dump_line w fsx h data ea ind (func_of c)"
    for fsx h
    by (simp add: dump_line_def dump_def agree split: prod.splits sum.splits)
  have at: "atomic_try (w\<lparr>json_dump := jd\<rparr>) fsx h data ea ind (func_of c)
      = atomic_try w fsx h data ea ind (func_of c)"
    for fsx h
    by (simp add: atomic_try_def dl split: prod.splits sum.splits option.splits)
  show "write_json (w\<lparr>json_dump := jd\<rparr>) fs p data enc ind ea cp atomic (Some c)
      = write_json w fs p data enc ind ea cp atomic (Some c)"
    by (simp add: write_json_def default_or_true [OF t] dl at
        split: prod.splits sum.splits option.splits)
next
  assume t: "truthy c"
    and "write_json w fs p data enc ind ea cp atomic (Some c) = (fs', Inr ())"
  from write_json_Inr [OF this(2)]
  show "\<exists>s b. json_dump w (func_of c) ea ind data = (s, None)
      \<and> encode w enc (s @ newline) = Inr b
      \<and> node_at fs' p = Some (File b)"
    by (auto simp: default_or_true [OF t])
qed

theorem caller_default_is_passed_witness:
  "truthy true_callable
   \<and> write_json (example_world\<lparr>json_dump := wired_dump (func_of true_callable)\<rparr>) example_fs
        [''data'', ''out.json''] boxed_seven ''utf-8'' (Some 2) False True True (Some true_callable)
     = write_json example_world example_fs
        [''data'', ''out.json''] boxed_seven ''utf-8'' (Some 2) False True True (Some true_callable)
   \<and> snd (write_json example_world example_fs [''data'', ''out.json''] boxed_seven ''utf-8''
          (Some 2) False True True (Some true_callable)) = Inr ()
   \<and> node_at (fst (write_json example_world example_fs [''data'', ''out.json''] boxed_seven
          ''utf-8'' (Some 2) False True True (Some true_callable))) [''data'', ''out.json'']
       = Some (File ''true\<newline>'')
   \<and> json_dump example_world (func_of true_callable) False (Some 2) boxed_seven = (''true'', None)
   \<and> node_at (fst (write_json example_world example_fs [''data'', ''out.json''] boxed_seven
          ''utf-8'' (Some 2) False True True None)) [''data'', ''out.json'']
       = Some (File ''7\<newline>'')"
proof -
  let ?p = "[''data'', ''out.json'']"
  let ?r = "write_json example_world example_fs ?p boxed_seven ''utf-8'' (Some 2) False True True
      (Some true_callable)"
  have t: "truthy true_callable"
    by (simp add: true_callable_def)
  have agree: "\<forall>ensure_ascii indent v.
      wired_dump (func_of true_callable) (func_of true_callable) ensure_ascii indent v
      = json_dump example_world (func_of true_callable) ensure_ascii indent v"
    by (simp add: example_world_def wired_dump_def)
  have r: "snd ?r = Inr ()"
    by (simp add: file_io_defs example_defs)
  then have wr: "?r = (fst ?r, Inr ())"
    by (simp add: prod_eq_iff)
  have ser: "json_dump example_world (func_of true_callable) False (Some 2) boxed_seven
      = (''true'', None)"
    by (simp add: example_defs)
  have e1: "encode example_world ''utf-8'' (''true'' @ newline) = Inr ''true\<newline>''"
    by (simp add: example_defs)
  have chain: "node_at (fst (write_json example_world example_fs ?p boxed_seven ''utf-8''
      (Some 2) False True True None)) ?p = Some (File ''7\<newline>'')"
    by (simp add: file_io_defs example_defs json_default_def return_str_def try_call_def
        epsg_rule_def dec_int_def dec_nat.simps)
  note c = caller_default_is_passed [where w = example_world and c = true_callable
      and jd = "wired_dump (func_of true_callable)" and fs = example_fs and p = ?p
      and data = boxed_seven and enc = "''utf-8''" and ind = "Some 2" and ea = False
      and cp = True and atomic = True and fs' = "fst ?r"]
  from c t agree have same: "write_json
      (example_world\<lparr>json_dump := wired_dump (func_of true_callable)\<rparr>)
      example_fs ?p boxed_seven ''utf-8'' (Some 2) False True True (Some true_callable) = ?r"
    by blast
  from c t wr obtain s b
    where "json_dump example_world (func_of true_callable) False (Some 2) boxed_seven = (s, None)"
      and "encode example_world ''utf-8'' (s @ newline) = Inr b"
      and "node_at (fst ?r) ?p = Some (File b)"
    by blast
  with ser e1 have stored: "node_at (fst ?r) ?p = Some (File ''true\<newline>'')"
    by simp
  from t same r stored ser chain show ?thesis
    by (intro conjI)
qed

text \<open>
  Claim C7 as stated, for every callable the caller supplies, fails for a callable
  object that is false in a Boolean context. Called on the boxed scalar it answers
  \<^verbatim>\<open>True\<close>, so a serializer handed that callable writes \<^verbatim>\<open>true\<close>; the write that
  is given it returns normally and the file holds \<^verbatim>\<open>7\<close>, the result of the \<^verbatim>\<open>item\<close>
  rule of the default chain, which is what the serializer was handed instead.
\<close>

theorem caller_default_counterexample:
  "\<not> truthy false_callable
   \<and> json_dump example_world (func_of false_callable) False (Some 2) boxed_seven = (''true'', None)
   \<and> snd (write_json example_world example_fs [''data'', ''out.json''] boxed_seven ''utf-8''
          (Some 2) False True True (Some false_callable)) = Inr ()
   \<and> node_at (fst (write_json example_world example_fs [''data'', ''out.json''] boxed_seven
          ''utf-8'' (Some 2) False True True (Some false_callable))) [''data'', ''out.json'']
       = Some (File ''7\<newline>'')
   \<and> snd (write_json example_world example_fs [''data'', ''out.json''] boxed_seven ''utf-8''
          (Some 2) False True False (Some false_callable)) = Inr ()
   \<and> node_at (fst (write_json example_world example_fs [''data'', ''out.json''] boxed_seven
          ''utf-8'' (Some 2) False True False (Some false_callable))) [''data'', ''out.json'']
       = Some (File ''7\<newline>'')"
  by (simp add: file_io_defs example_defs json_default_def return_str_def try_call_def
      epsg_rule_def dec_int_def dec_nat.simps)

section \<open>The cached clients: properties\<close>

lemma get_sync_client_cached:
  "sync_client s = Some c \<Longrightarrow> get_sync_client d uri s = (Inr c, s)"
  by (simp add: get_sync_client_def)

lemma get_async_client_cached:
  "async_client s = Some c \<Longrightarrow> get_async_client d uri s = (Inr c, s)"
  by (simp add: get_async_client_def)

lemma get_sync_client_caches:
  assumes "get_sync_client d uri s = (Inr c, s')"
  shows "sync_client s' = Some c"
proof (cases "sync_client s")
  case None
  obtain r s1 where n: "new_sync_client d uri s = (r, s1)"
    by (cases "new_sync_client d uri s")
  with None assms show ?thesis
    by (cases r) (clarsimp simp: get_sync_client_def)+
next
  case (Some c')
  with assms show ?thesis by (clarsimp simp: get_sync_client_def)
qed

lemma get_async_client_caches:
  assumes "get_async_client d uri s = (Inr c, s')"
  shows "async_client s' = Some c"
proof (cases "async_client s")
  case None
  obtain r s1 where n: "new_async_client d uri s = (r, s1)"
    by (cases "new_async_client d uri s")
  with None assms show ?thesis
    by (cases r) (clarsimp simp: get_async_client_def)+
next
  case (Some c')
  with assms show ?thesis by (clarsimp simp: get_async_client_def)
qed

text \<open>
  Claim C9. While a client is cached, \<^verbatim>\<open>get_sync_client\<close> and
  \<^verbatim>\<open>get_async_client\<close> return it and leave the state as it is, whatever the URI
  argument. In particular the call after one that returned a client returns the same
  client, whatever URI either call was given: only the creating call reads its argument.
\<close>

theorem get_client_cached:
  "(sync_client s = Some c \<longrightarrow> get_sync_client d uri s = (Inr c, s))
   \<and> (async_client s = Some c \<longrightarrow> get_async_client d uri s = (Inr c, s))
   \<and> (get_sync_client d uri s = (Inr c, s') \<longrightarrow> get_sync_client d uri' s' = (Inr c, s'))
   \<and> (get_async_client d uri s = (Inr c, s') \<longrightarrow> get_async_client d uri' s' = (Inr c, s'))"
proof (intro conjI impI)
  assume "sync_client s = Some c"
  then show "get_sync_client d uri s = (Inr c, s)"
    by (rule get_sync_client_cached)
next
  assume "async_client s = Some c"
  then show "get_async_client d uri s = (Inr c, s)"
    by (rule get_async_client_cached)
next
  assume "get_sync_client d uri s = (Inr c, s')"
  then have "sync_client s' = Some c"
    by (rule get_sync_client_caches)
  then show "get_sync_client d uri' s' = (Inr c, s')"
    by (rule get_sync_client_cached)
next
  assume "get_async_client d uri s = (Inr c, s')"
  then have "async_client s' = Some c"
    by (rule get_async_client_caches)
  then show "get_async_client d uri' s' = (Inr c, s')"
    by (rule get_async_client_cached)
qed

theorem get_client_cached_witness:
  "fst (get_sync_client example_driver (Some ''mongodb://a'') example_state) = Inr ''pymongo mongodb://a''
   \<and> get_sync_client example_driver (Some ''mongodb://b'')
        (snd (get_sync_client example_driver (Some ''mongodb://a'') example_state))
       = (Inr ''pymongo mongodb://a'',
          snd (get_sync_client example_driver (Some ''mongodb://a'') example_state))
   \<and> fst (get_async_client example_driver None example_state) = Inr ''motor mongodb://localhost:27017''
   \<and> get_async_client example_driver (Some ''mongodb://b'')
        (snd (get_async_client example_driver None example_state))
       = (Inr ''motor mongodb://localhost:27017'',
          snd (get_async_client example_driver None example_state))
   \<and> get_sync_client example_driver (Some ''mongodb://b'')
        (example_state\<lparr>sync_client := Some ''cached''\<rparr>)
       = (Inr ''cached'', example_state\<lparr>sync_client := Some ''cached''\<rparr>)
   \<and> get_async_client example_driver (Some ''mongodb://b'')
        (example_state\<lparr>async_client := Some ''cached''\<rparr>)
       = (Inr ''cached'', example_state\<lparr>async_client := Some ''cached''\<rparr>)"
proof -
  have s1: "get_sync_client example_driver (Some ''mongodb://a'') example_state
      = (Inr ''pymongo mongodb://a'',
         snd (get_sync_client example_driver (Some ''mongodb://a'') example_state))"
    by (simp add: get_sync_client_def new_sync_client_def new_client_def uri_or_env_def
        client_kwargs_for_uri_def getenv_def startswith_def example_driver_def example_state_def)
  have a1: "get_async_client example_driver None example_state
      = (Inr ''motor mongodb://localhost:27017'',
         snd (get_async_client example_driver None example_state))"
    by (simp add: get_async_client_def new_async_client_def new_client_def uri_or_env_def
        get_mongo_uri_def client_kwargs_for_uri_def getenv_def startswith_def
        example_driver_def example_state_def)
  have c1: "sync_client (example_state\<lparr>sync_client := Some ''cached''\<rparr>) = Some ''cached''"
    by simp
  have c2: "async_client (example_state\<lparr>async_client := Some ''cached''\<rparr>) = Some ''cached''"
    by simp
  note inst = get_client_cached [where d = example_driver and uri' = "Some ''mongodb://b''"]
  have s2: "get_sync_client example_driver (Some ''mongodb://b'')
        (snd (get_sync_client example_driver (Some ''mongodb://a'') example_state))
       = (Inr ''pymongo mongodb://a'',
          snd (get_sync_client example_driver (Some ''mongodb://a'') example_state))"
    using inst [THEN conjunct2, THEN conjunct2, THEN conjunct1, rule_format, OF s1] .
  have a2: "get_async_client example_driver (Some ''mongodb://b'')
        (snd (get_async_client example_driver None example_state))
       = (Inr ''motor mongodb://localhost:27017'',
          snd (get_async_client example_driver None example_state))"
    using inst [THEN conjunct2, THEN conjunct2, THEN conjunct2, rule_format, OF a1] .
  have s3: "get_sync_client example_driver (Some ''mongodb://b'')
        (example_state\<lparr>sync_client := Some ''cached''\<rparr>)
       = (Inr ''cached'', example_state\<lparr>sync_client := Some ''cached''\<rparr>)"
    using inst [THEN conjunct1, rule_format, OF c1] .
  have a3: "get_async_client example_driver (Some ''mongodb://b'')
        (example_state\<lparr>async_client := Some ''cached''\<rparr>)
       = (Inr ''cached'', example_state\<lparr>async_client := Some ''cached''\<rparr>)"
    using inst [THEN conjunct2, THEN conjunct1, rule_format, OF c2] .
  have s0: "fst (get_sync_client example_driver (Some ''mongodb://a'') example_state)
      = Inr ''pymongo mongodb://a''"
    by (subst s1) simp
  have a0: "fst (get_async_client example_driver None example_state)
      = Inr ''motor mongodb://localhost:27017''"
    by (subst a1) simp
  from s0 s2 a0 a2 s3 a3 show ?thesis by (intro conjI)
qed

text \<open>
  Claim C10. \<^verbatim>\<open>close_sync_client\<close> and \<^verbatim>\<open>close_async_client\<close> are idempotent:
  with no client cached they change nothing (and do not raise); after a call the
  cached handle is \<^verbatim>\<open>None\<close>; a second call in a row changes nothing more.
\<close>

theorem close_client_idempotent:
  "(sync_client s = None \<longrightarrow> close_sync_client s = s)
   \<and> (async_client s = None \<longrightarrow> close_async_client s = s)
   \<and> sync_client (close_sync_client s) = None
   \<and> async_client (close_async_client s) = None
   \<and> close_sync_client (close_sync_client s) = close_sync_client s
   \<and> close_async_client (close_async_client s) = close_async_client s"
  by (cases "sync_client s"; cases "async_client s")
    (simp_all add: close_sync_client_def close_async_client_def)

theorem close_client_idempotent_witness:
  "sync_client example_state = None
   \<and> close_sync_client example_state = example_state
   \<and> async_client example_state = None
   \<and> close_async_client example_state = example_state
   \<and> close_sync_client (close_sync_client (example_state\<lparr>sync_client := Some ''cached''\<rparr>))
       = close_sync_client (example_state\<lparr>sync_client := Some ''cached''\<rparr>)
   \<and> close_sync_client (example_state\<lparr>sync_client := Some ''cached''\<rparr>)
       = example_state\<lparr>closed_clients := [''cached''], logged := [''Sync MongoDB client closed.'']\<rparr>"
proof -
  have n1: "sync_client example_state = None"
    by (simp add: example_state_def)
  have n2: "async_client example_state = None"
    by (simp add: example_state_def)
  have once: "close_sync_client (example_state\<lparr>sync_client := Some ''cached''\<rparr>)
      = example_state\<lparr>closed_clients := [''cached''], logged := [''Sync MongoDB client closed.'']\<rparr>"
    by (simp add: close_sync_client_def example_state_def)
  note inst = close_client_idempotent [where s = example_state]
  note inst2 = close_client_idempotent [where s = "example_state\<lparr>sync_client := Some ''cached''\<rparr>"]
  have k1: "close_sync_client example_state = example_state"
    using inst [THEN conjunct1, rule_format, OF n1] .
  have k2: "close_async_client example_state = example_state"
    using inst [THEN conjunct2, THEN conjunct1, rule_format, OF n2] .
  have k3: "close_sync_client (close_sync_client (example_state\<lparr>sync_client := Some ''cached''\<rparr>))
       = close_sync_client (example_state\<lparr>sync_client := Some ''cached''\<rparr>)"
    using inst2 by (elim conjE)
  from n1 k1 n2 k2 k3 once show ?thesis by (intro conjI)
qed

end
